theory Spec2Isabelle
  imports Complex_Main
begin

section \<open>Numbers, exceptions and results\<close>

text \<open>
  The pricer computes with numpy \<open>float64\<close> scalars. The embedding keeps the special
  values of that type and idealises the finite ones: a finite value is a real number,
  so there is no rounding and no overflow, and zero has no sign (a division of a
  non-zero finite value by zero gives the infinity of the sign of the numerator).
\<close>

datatype fl = Fin real | PInf | NInf | NaN

text \<open>
  The exceptions of the Python code. \<open>FloatingPointError\<close> is what numpy raises when
  its error state is set to raise; under the default error state numpy warns and
  returns an infinity or a NaN.
\<close>

datatype pyexn =
    ValueError | TypeError | AssertionError | AttributeError
  | ZeroDivisionError | RecursionError | FloatingPointError | IndexError

text \<open>
  The outcome of a call: a returned value, a raised exception, or \<open>NoReturn\<close> when a
  loop was still running after the step bound of the model.
\<close>

datatype 'a res = Ok 'a | Raise pyexn | NoReturn

fun res_bind :: "'a res \<Rightarrow> ('a \<Rightarrow> 'b res) \<Rightarrow> 'b res" where
  "res_bind (Ok x) f = f x"
| "res_bind (Raise e) f = Raise e"
| "res_bind NoReturn f = NoReturn"

text \<open>
  The run-time environment: numpy's error state (\<open>np_raise\<close> is
  \<open>np.seterr(all='raise')\<close>; the default is to warn), the number of nested
  \<open>Node.price\<close> calls the interpreter's recursion limit leaves room for, and the
  step bound given to each loop of the model.
\<close>

record rt =
  np_raise :: bool
  rec_limit :: nat
  loop_fuel :: nat

subsection \<open>Operations on float64 values\<close>

fun fl_neg :: "fl \<Rightarrow> fl" where
  "fl_neg (Fin x) = Fin (- x)"
| "fl_neg PInf = NInf"
| "fl_neg NInf = PInf"
| "fl_neg NaN = NaN"

fun fl_abs :: "fl \<Rightarrow> fl" where
  "fl_abs (Fin x) = Fin \<bar>x\<bar>"
| "fl_abs PInf = PInf"
| "fl_abs NInf = PInf"
| "fl_abs NaN = NaN"

fun fl_add :: "fl \<Rightarrow> fl \<Rightarrow> fl" where
  "fl_add (Fin x) (Fin y) = Fin (x + y)"
| "fl_add NaN _ = NaN"
| "fl_add _ NaN = NaN"
| "fl_add PInf NInf = NaN"
| "fl_add NInf PInf = NaN"
| "fl_add PInf _ = PInf"
| "fl_add NInf _ = NInf"
| "fl_add _ PInf = PInf"
| "fl_add _ NInf = NInf"

definition fl_sub :: "fl \<Rightarrow> fl \<Rightarrow> fl" where
  "fl_sub x y = fl_add x (fl_neg y)"

text \<open>The sign of a value: \<open>1\<close>, \<open>-1\<close>, or \<open>0\<close> for zero and NaN.\<close>

fun fl_sign :: "fl \<Rightarrow> int" where
  "fl_sign (Fin x) = (if x < 0 then - 1 else if x = 0 then 0 else 1)"
| "fl_sign PInf = 1"
| "fl_sign NInf = - 1"
| "fl_sign NaN = 0"

definition inf_of_sign :: "int \<Rightarrow> fl" where
  "inf_of_sign s = (if s < 0 then NInf else PInf)"

fun is_inf :: "fl \<Rightarrow> bool" where
  "is_inf PInf = True"
| "is_inf NInf = True"
| "is_inf _ = False"

fun fl_mul :: "fl \<Rightarrow> fl \<Rightarrow> fl" where
  "fl_mul (Fin x) (Fin y) = Fin (x * y)"
| "fl_mul NaN _ = NaN"
| "fl_mul _ NaN = NaN"
| "fl_mul x y = (if fl_sign x * fl_sign y = 0 then NaN else inf_of_sign (fl_sign x * fl_sign y))"

fun fl_div :: "fl \<Rightarrow> fl \<Rightarrow> fl" where
  "fl_div NaN _ = NaN"
| "fl_div _ NaN = NaN"
| "fl_div (Fin x) (Fin y) =
     (if y \<noteq> 0 then Fin (x / y) else if x = 0 then NaN else inf_of_sign (fl_sign (Fin x)))"
| "fl_div (Fin x) _ = Fin 0"
| "fl_div x (Fin y) = inf_of_sign (fl_sign x * (if y < 0 then - 1 else 1))"
| "fl_div _ _ = NaN"

fun fl_exp :: "fl \<Rightarrow> fl" where
  "fl_exp (Fin x) = Fin (exp x)"
| "fl_exp PInf = PInf"
| "fl_exp NInf = Fin 0"
| "fl_exp NaN = NaN"

fun fl_sqrt :: "fl \<Rightarrow> fl" where
  "fl_sqrt (Fin x) = (if x < 0 then NaN else Fin (sqrt x))"
| "fl_sqrt PInf = PInf"
| "fl_sqrt NInf = NaN"
| "fl_sqrt NaN = NaN"

text \<open>
  Powers with an integer exponent. The code uses the exponents \<open>2\<close>, \<open>-1\<close> and
  \<open>-2\<close> only.
\<close>

fun fl_powi :: "fl \<Rightarrow> int \<Rightarrow> fl" where
  "fl_powi (Fin x) n =
     (if 0 \<le> n then Fin (x ^ nat n)
      else if x = 0 then PInf
      else Fin (1 / x ^ nat (- n)))"
| "fl_powi NaN n = (if n = 0 then Fin 1 else NaN)"
| "fl_powi PInf n = (if n = 0 then Fin 1 else if 0 < n then PInf else Fin 0)"
| "fl_powi NInf n =
     (if n = 0 then Fin 1 else if n < 0 then Fin 0 else if even n then PInf else NInf)"

text \<open>Comparisons: every comparison with a NaN is false.\<close>

fun fl_lt :: "fl \<Rightarrow> fl \<Rightarrow> bool" where
  "fl_lt (Fin x) (Fin y) = (x < y)"
| "fl_lt NaN _ = False"
| "fl_lt _ NaN = False"
| "fl_lt _ NInf = False"
| "fl_lt PInf _ = False"
| "fl_lt _ _ = True"

fun fl_le :: "fl \<Rightarrow> fl \<Rightarrow> bool" where
  "fl_le (Fin x) (Fin y) = (x \<le> y)"
| "fl_le NaN _ = False"
| "fl_le _ NaN = False"
| "fl_le NInf _ = True"
| "fl_le _ PInf = True"
| "fl_le _ _ = False"

definition fl_gt :: "fl \<Rightarrow> fl \<Rightarrow> bool" where
  "fl_gt x y = fl_lt y x"

definition fl_ge :: "fl \<Rightarrow> fl \<Rightarrow> bool" where
  "fl_ge x y = fl_le y x"

text \<open>
  Python's \<open>max(a, b)\<close> keeps \<open>a\<close> unless \<open>b > a\<close>, so a NaN in first place is kept.
\<close>

definition py_max :: "fl \<Rightarrow> fl \<Rightarrow> fl" where
  "py_max a b = (if fl_gt b a then b else a)"

subsection \<open>numpy operations under the error state\<close>

text \<open>
  The operations that signal: an invalid operation (\<open>inf - inf\<close>, \<open>0 * inf\<close>,
  \<open>0 / 0\<close>, \<open>inf / inf\<close>, the square root of a negative number) and a division of a
  finite value by zero. A NaN operand is propagated without a signal. When numpy's
  error state is to raise, a signalling operation raises \<open>FloatingPointError\<close>;
  otherwise it returns the special value.
\<close>

definition add_signals :: "fl \<Rightarrow> fl \<Rightarrow> bool" where
  "add_signals x y = ((x = PInf \<and> y = NInf) \<or> (x = NInf \<and> y = PInf))"

definition mul_signals :: "fl \<Rightarrow> fl \<Rightarrow> bool" where
  "mul_signals x y = ((is_inf x \<and> y = Fin 0) \<or> (x = Fin 0 \<and> is_inf y))"

definition div_signals :: "fl \<Rightarrow> fl \<Rightarrow> bool" where
  "div_signals x y = ((is_inf x \<and> is_inf y) \<or> (y = Fin 0 \<and> x \<noteq> NaN \<and> \<not> is_inf x))"

definition sqrt_signals :: "fl \<Rightarrow> bool" where
  "sqrt_signals x = (x = NInf \<or> (case x of Fin r \<Rightarrow> r < 0 | _ \<Rightarrow> False))"

definition powi_signals :: "fl \<Rightarrow> int \<Rightarrow> bool" where
  "powi_signals x n = (x = Fin 0 \<and> n < 0)"

definition signal :: "rt \<Rightarrow> bool \<Rightarrow> fl \<Rightarrow> fl res" where
  "signal r s v = (if np_raise r \<and> s then Raise FloatingPointError else Ok v)"

text \<open>
  The operands are themselves outcomes, evaluated from left to right as Python does,
  so that an expression of the source is one term of the model.
\<close>

definition np_add :: "rt \<Rightarrow> fl res \<Rightarrow> fl res \<Rightarrow> fl res" where
  "np_add r a b = res_bind a (\<lambda>x. res_bind b (\<lambda>y. signal r (add_signals x y) (fl_add x y)))"

definition np_sub :: "rt \<Rightarrow> fl res \<Rightarrow> fl res \<Rightarrow> fl res" where
  "np_sub r a b =
     res_bind a (\<lambda>x. res_bind b (\<lambda>y. signal r (add_signals x (fl_neg y)) (fl_sub x y)))"

definition np_mul :: "rt \<Rightarrow> fl res \<Rightarrow> fl res \<Rightarrow> fl res" where
  "np_mul r a b = res_bind a (\<lambda>x. res_bind b (\<lambda>y. signal r (mul_signals x y) (fl_mul x y)))"

definition np_div :: "rt \<Rightarrow> fl res \<Rightarrow> fl res \<Rightarrow> fl res" where
  "np_div r a b = res_bind a (\<lambda>x. res_bind b (\<lambda>y. signal r (div_signals x y) (fl_div x y)))"

definition np_powi :: "rt \<Rightarrow> fl res \<Rightarrow> int \<Rightarrow> fl res" where
  "np_powi r a n = res_bind a (\<lambda>x. signal r (powi_signals x n) (fl_powi x n))"

definition np_sqrt :: "rt \<Rightarrow> fl res \<Rightarrow> fl res" where
  "np_sqrt r a = res_bind a (\<lambda>x. signal r (sqrt_signals x) (fl_sqrt x))"

definition np_exp :: "fl res \<Rightarrow> fl res" where
  "np_exp a = res_bind a (\<lambda>x. Ok (fl_exp x))"

section \<open>Dates\<close>

text \<open>
  A \<open>datetime\<close> is a number of microseconds since a fixed origin (1970-01-01), a
  \<open>timedelta\<close> a number of microseconds: the resolution of Python's \<open>datetime\<close>
  module. The module rounds to the nearest microsecond, ties to even, both when a
  \<open>timedelta\<close> is built from a fractional number of days and when one is divided.
\<close>

type_synonym datetime = int
type_synonym timedelta = int

definition us_per_day :: int where
  "us_per_day = 86400000000"

definition round_half_even :: "real \<Rightarrow> int" where
  "round_half_even x =
     (let f = \<lfloor>x\<rfloor>; d = x - of_int f
      in if d < 1 / 2 then f else if 1 / 2 < d then f + 1 else if even f then f else f + 1)"

definition timedelta_days :: "real \<Rightarrow> timedelta" where
  \<comment> \<open>\<open>dt.timedelta(days=x)\<close>\<close>
  "timedelta_days x = round_half_even (x * of_int us_per_day)"

definition td_div :: "timedelta \<Rightarrow> int \<Rightarrow> timedelta" where
  \<comment> \<open>\<open>timedelta / int\<close>, for a positive divisor\<close>
  "td_div a b =
     (let q = a div b; r = a mod b
      in if 2 * r < b then q else if b < 2 * r then q + 1 else if even q then q else q + 1)"

definition td_days :: "timedelta \<Rightarrow> int" where
  \<comment> \<open>the \<open>.days\<close> attribute\<close>
  "td_days d = d div us_per_day"

definition sentinel_date :: datetime where
  \<comment> \<open>\<open>dt.datetime(2099, 12, 31)\<close>\<close>
  "sentinel_date = 47481 * us_per_day"

section \<open>Market, option and run parameters\<close>

record market =
  s0 :: real
  rate :: real
  vol :: real
  dividend :: real
  ex_div_date :: datetime

definition Market :: "real \<Rightarrow> real \<Rightarrow> real \<Rightarrow> real \<Rightarrow> datetime option \<Rightarrow> market res" where
  "Market s r v dividend_amount ex =
     (if s < 0 \<or> v < 0 then Raise ValueError
      else Ok \<lparr>s0 = s, rate = r, vol = v, dividend = dividend_amount,
                ex_div_date = (case ex of
                                 Some e \<Rightarrow> if dividend_amount \<noteq> 0 then e else sentinel_date
                               | None \<Rightarrow> sentinel_date)\<rparr>)"

record pyoption =
  K :: real
  maturity :: datetime
  call_put :: string
  eur_am :: string

definition Option :: "real \<Rightarrow> datetime \<Rightarrow> string \<Rightarrow> string \<Rightarrow> pyoption res" where
  "Option k m cp ea =
     (if cp \<notin> set [''call'', ''put''] \<or> ea \<notin> set [''european'', ''american'']
      then Raise TypeError
      else Ok \<lparr>K = k, maturity = m, call_put = cp, eur_am = ea\<rparr>)"

definition payoff :: "pyoption \<Rightarrow> fl \<Rightarrow> fl" where
  "payoff opt und =
     (if call_put opt = ''call'' then py_max (fl_sub und (Fin (K opt))) (Fin 0)
      else py_max (fl_sub (Fin (K opt)) und) (Fin 0))"

definition is_american :: "pyoption \<Rightarrow> bool" where
  "is_american opt = (eur_am opt = ''american'')"

record pricer_parameters_t =
  pricing_date :: datetime
  nb_steps :: int
  pruning :: bool
  p_min :: "real option"

section \<open>Nodes and the tree\<close>

text \<open>
  The nodes of a tree live in a store indexed by addresses; a link between nodes is
  an address, and \<open>None\<close> is Python's \<open>None\<close>. \<open>is_trunc\<close> tells a \<open>TruncNode\<close>
  from a plain \<open>Node\<close>; only a \<open>TruncNode\<close> has the attribute \<open>prec_node\<close>.
\<close>

record node =
  und_price :: fl
  date :: datetime
  opt_price :: "fl option"
  p_up :: fl
  p_mid :: fl
  p_down :: fl
  p_node :: fl
  next_up :: "nat option"
  next_mid :: "nat option"
  next_down :: "nat option"
  up_node :: "nat option"
  down_node :: "nat option"
  is_exerced :: bool
  is_trunc :: bool
  prec_node :: "nat option"

record tree =
  pricer_parameters :: pricer_parameters_t
  market_data :: market
  option_data :: pyoption
  delta_t :: real
  df :: fl
  alpha :: fl
  root_t :: "nat option"
  last_t :: "nat option"
  nodes :: "nat \<Rightarrow> node"
  nxt :: nat

text \<open>
  A method that changes nodes takes the tree and returns its outcome with the tree as
  the call left it, also when it raises.
\<close>

type_synonym 'a comp = "tree \<Rightarrow> 'a res \<times> tree"

definition ret :: "'a \<Rightarrow> 'a comp" where
  "ret x t = (Ok x, t)"

definition lift :: "'a res \<Rightarrow> 'a comp" where
  "lift x t = (x, t)"

definition seq :: "'a comp \<Rightarrow> ('a \<Rightarrow> 'b comp) \<Rightarrow> 'b comp" where
  "seq m f t =
     (case m t of
        (Ok x, t') \<Rightarrow> f x t'
      | (Raise e, t') \<Rightarrow> (Raise e, t')
      | (NoReturn, t') \<Rightarrow> (NoReturn, t'))"

definition upd :: "nat \<Rightarrow> (node \<Rightarrow> node) \<Rightarrow> unit comp" where
  "upd a f t = (Ok (), t\<lparr>nodes := (nodes t)(a := f (nodes t a))\<rparr>)"

definition new_node :: "fl \<Rightarrow> datetime \<Rightarrow> bool \<Rightarrow> nat option \<Rightarrow> nat comp" where
  \<comment> \<open>\<open>Node(und_price, tree, date)\<close>, or \<open>TruncNode(und_price, tree, date, prec_node)\<close>\<close>
  "new_node p d tr prec t =
     (Ok (nxt t),
      t\<lparr>nodes := (nodes t)(nxt t :=
           \<lparr>und_price = p, date = d, opt_price = None,
            p_up = Fin 0, p_mid = Fin 0, p_down = Fin 0, p_node = Fin 0,
            next_up = None, next_mid = None, next_down = None,
            up_node = None, down_node = None,
            is_exerced = False, is_trunc = tr, prec_node = prec\<rparr>),
         nxt := Suc (nxt t)\<rparr>)"

subsection \<open>Node.dividend\_period and Node.forward\_variance\<close>

text \<open>
  The test of \<open>dividend_period\<close> reads the ex-dividend date of the market, the date of
  the node, the time step and the number of steps.
\<close>

definition in_dividend_period :: "datetime \<Rightarrow> datetime \<Rightarrow> real \<Rightarrow> int \<Rightarrow> bool" where
  "in_dividend_period ex_date d dt n =
     (let next_date = d + timedelta_days (dt * 365);
          one_day = us_per_day;
          tol = td_div (td_div one_day (max 1 n)) 1000;
          after_start = (d < ex_date \<and> \<not> \<bar>d - ex_date\<bar> < tol);
          before_or_equal_next = (ex_date < next_date \<or> \<bar>ex_date - next_date\<bar> < tol)
      in after_start \<and> before_or_equal_next)"

definition dividend_period :: "tree \<Rightarrow> nat \<Rightarrow> bool" where
  "dividend_period t a =
     in_dividend_period (ex_div_date (market_data t)) (date (nodes t a)) (delta_t t)
       (nb_steps (pricer_parameters t))"

definition forward_variance :: "rt \<Rightarrow> tree \<Rightarrow> nat \<Rightarrow> (fl \<times> fl) res" where
  "forward_variance r t a =
     (let n = nodes t a; m = market_data t
      in res_bind (np_mul r (Ok (und_price n)) (np_exp (Ok (Fin (rate m * delta_t t)))))
           (\<lambda>pure_forward.
         res_bind (if dividend_period t a
                   then np_sub r (Ok pure_forward) (Ok (Fin (dividend m)))
                   else Ok pure_forward)
           (\<lambda>expected_value.
         res_bind (np_mul r
                     (np_mul r (np_powi r (Ok (und_price n)) 2)
                               (np_exp (Ok (Fin (2 * rate m * delta_t t)))))
                     (np_sub r (np_exp (Ok (Fin ((vol m)\<^sup>2 * delta_t t)))) (Ok (Fin 1))))
           (\<lambda>variance. Ok (expected_value, variance)))))"

subsection \<open>Neighbours in a column and the middle successor\<close>

definition calc_up_node :: "rt \<Rightarrow> nat \<Rightarrow> nat comp" where
  "calc_up_node r a t =
     (case up_node (nodes t a) of
        Some u \<Rightarrow> (Ok u, t)
      | None \<Rightarrow>
          seq (lift (np_mul r (Ok (und_price (nodes t a))) (Ok (alpha t)))) (\<lambda>p.
          seq (new_node p (date (nodes t a)) False None) (\<lambda>u.
          seq (upd a (\<lambda>n. n\<lparr>up_node := Some u\<rparr>)) (\<lambda>_.
          seq (upd u (\<lambda>n. n\<lparr>down_node := Some a\<rparr>)) (\<lambda>_. ret u)))) t)"

definition calc_down_node :: "rt \<Rightarrow> nat \<Rightarrow> nat comp" where
  "calc_down_node r a t =
     (case down_node (nodes t a) of
        Some d \<Rightarrow> (Ok d, t)
      | None \<Rightarrow>
          seq (lift (np_div r (Ok (und_price (nodes t a))) (Ok (alpha t)))) (\<lambda>p.
          seq (new_node p (date (nodes t a)) False None) (\<lambda>d.
          seq (upd a (\<lambda>n. n\<lparr>down_node := Some d\<rparr>)) (\<lambda>_.
          seq (upd d (\<lambda>n. n\<lparr>up_node := Some a\<rparr>)) (\<lambda>_. ret d)))) t)"

text \<open>
  The two loops of \<open>Node.find_next_mid\<close>. Neither is bounded by the code: with a
  forward price that is not positive, or with \<open>alpha = 1\<close>, the first one creates
  neighbours for ever. The first argument is the step bound.
\<close>

fun find_up :: "rt \<Rightarrow> nat \<Rightarrow> fl \<Rightarrow> nat \<Rightarrow> nat comp" where
  "find_up r 0 forward c = (\<lambda>t. (NoReturn, t))"
| "find_up r (Suc k) forward c = (\<lambda>t.
     seq (lift (np_div r (np_add r (Ok (und_price (nodes t c)))
                                   (np_mul r (Ok (und_price (nodes t c))) (Ok (alpha t))))
                         (Ok (Fin 2)))) (\<lambda>bound.
       if fl_ge forward bound
       then seq (calc_up_node r c) (\<lambda>c'. find_up r k forward c')
       else ret c) t)"

fun find_down :: "rt \<Rightarrow> nat \<Rightarrow> fl \<Rightarrow> nat \<Rightarrow> nat comp" where
  "find_down r 0 forward c = (\<lambda>t. (NoReturn, t))"
| "find_down r (Suc k) forward c = (\<lambda>t.
     seq (lift (np_div r (np_add r (Ok (und_price (nodes t c)))
                                   (np_div r (Ok (und_price (nodes t c))) (Ok (alpha t))))
                         (Ok (Fin 2)))) (\<lambda>bound.
       if fl_le forward bound
       then seq (calc_down_node r c) (\<lambda>c'. find_down r k forward c')
       else ret c) t)"

definition find_next_mid :: "rt \<Rightarrow> nat \<Rightarrow> nat \<Rightarrow> nat comp" where
  "find_next_mid r a nCandidate =
     (\<lambda>t. seq (lift (forward_variance r t a)) (\<lambda>(forward, _).
       seq (find_up r (loop_fuel r) forward nCandidate) (\<lambda>c.
       seq (find_down r (loop_fuel r) forward c) (\<lambda>c'.
       seq (upd a (\<lambda>n. n\<lparr>next_mid := Some c'\<rparr>)) (\<lambda>_. ret c')))) t)"

definition make_next_mid :: "rt \<Rightarrow> nat \<Rightarrow> nat option \<Rightarrow> nat comp" where
  \<comment> \<open>the body of the conditional of \<open>calc_next_mid\<close>\<close>
  "make_next_mid r a nCandidate =
     seq (\<lambda>t. (forward_variance r t a, t)) (\<lambda>(next_value, _).
     seq (\<lambda>t. new_node next_value
                 (date (nodes t a) + timedelta_days (delta_t t * 365))
                 (is_trunc (nodes t a))
                 (if is_trunc (nodes t a) then Some a else None) t) (\<lambda>m.
     seq (upd a (\<lambda>n. n\<lparr>next_mid := Some m\<rparr>)) (\<lambda>_.
     (\<lambda>t. if dividend_period t a
          then find_next_mid r a (case nCandidate of None \<Rightarrow> m | Some c \<Rightarrow> c) t
          else (Ok m, t)))))"

definition calc_next_mid :: "rt \<Rightarrow> nat \<Rightarrow> nat option \<Rightarrow> nat comp" where
  "calc_next_mid r a nCandidate =
     (\<lambda>t. case next_mid (nodes t a) of
        None \<Rightarrow> make_next_mid r a nCandidate t
      | Some m \<Rightarrow> if dividend_period t a then make_next_mid r a nCandidate t else (Ok m, t))"

subsection \<open>Node.probas\<close>

definition CLOSE_EPS :: real where
  "CLOSE_EPS = 1 / 10 ^ 12"

definition PROB_TOL :: real where
  "PROB_TOL = 1 / 10 ^ 10"

definition set_probas :: "nat \<Rightarrow> fl \<Rightarrow> fl \<Rightarrow> fl \<Rightarrow> unit comp" where
  \<comment> \<open>\<open>self.p_up, self.p_mid, self.p_down = u, m, d\<close>\<close>
  "set_probas a u m d = upd a (\<lambda>n. n\<lparr>p_up := u, p_mid := m, p_down := d\<rparr>)"

definition is_pruned :: "tree \<Rightarrow> nat \<Rightarrow> bool res" where
  \<comment> \<open>\<open>pruning and self.p_node < p_min\<close>; a comparison with \<open>None\<close> is a \<open>TypeError\<close>\<close>
  "is_pruned t a =
     (if pruning (pricer_parameters t)
      then (case p_min (pricer_parameters t) of
              None \<Rightarrow> Raise TypeError
            | Some pm \<Rightarrow> Ok (fl_lt (p_node (nodes t a)) (Fin pm)))
      else Ok False)"

text \<open>
  The body of the \<open>try\<close> statement of \<open>Node.probas\<close>: the choice of the branch and
  the two closed formulas.
\<close>

definition probas_formulas :: "rt \<Rightarrow> tree \<Rightarrow> nat \<Rightarrow> fl \<Rightarrow> fl \<Rightarrow> fl \<Rightarrow> (fl \<times> fl \<times> fl) res" where
  "probas_formulas r t a expected_value variance sm =
     (let al = Ok (alpha t); sigma = vol (market_data t); dt = delta_t t; one = Ok (Fin 1)
      in res_bind (if \<not> dividend_period t a then Ok True
                   else res_bind (np_sub r (Ok expected_value) (Ok sm))
                          (\<lambda>d. Ok (fl_lt (fl_abs d) (Fin CLOSE_EPS))))
           (\<lambda>simple.
         if simple then
           res_bind (np_sub r (np_exp (Ok (Fin (sigma\<^sup>2 * dt)))) one) (\<lambda>var_factor.
           res_bind (np_mul r (np_sub r one al) (np_sub r (np_powi r al (- 2)) one)) (\<lambda>denom.
           res_bind (np_div r (Ok var_factor) (Ok denom)) (\<lambda>p_down.
           res_bind (np_div r (Ok p_down) al) (\<lambda>p_up.
           res_bind (np_sub r (np_sub r one (Ok p_up)) (Ok p_down)) (\<lambda>p_mid.
           Ok (p_up, p_mid, p_down))))))
         else
           res_bind (np_div r (np_add r (Ok variance)
                                 (np_mul r (np_add r (Ok expected_value) (Ok sm))
                                           (np_sub r (Ok expected_value) (Ok sm))))
                              (np_powi r (Ok sm) 2)) (\<lambda>variance_term.
           res_bind (np_div r (np_sub r (Ok expected_value) (Ok sm)) (Ok sm)) (\<lambda>expected_term.
           res_bind (np_mul r (np_sub r one al) (np_sub r (np_powi r al (- 2)) one)) (\<lambda>denominator.
           res_bind (np_div r (np_sub r (Ok variance_term)
                                 (np_mul r (np_add r al one) (Ok expected_term)))
                              (Ok denominator)) (\<lambda>p_down.
           res_bind (np_div r (np_sub r (Ok expected_term)
                                 (np_mul r (np_sub r (np_powi r al (- 1)) one) (Ok p_down)))
                              (np_sub r al one)) (\<lambda>p_up.
           res_bind (np_sub r (np_sub r one (Ok p_up)) (Ok p_down)) (\<lambda>p_mid.
           Ok (p_up, p_mid, p_down)))))))))"

text \<open>The checks after the \<open>try\<close> statement: each raises \<open>AssertionError\<close>.\<close>

definition probas_check :: "rt \<Rightarrow> fl \<times> fl \<times> fl \<Rightarrow> unit res" where
  "probas_check r ps =
     (case ps of (pu, pm, pd) \<Rightarrow>
        res_bind (np_add r (np_add r (Ok pu) (Ok pm)) (Ok pd)) (\<lambda>p_sum.
        res_bind (np_sub r (Ok p_sum) (Ok (Fin 1))) (\<lambda>d.
          if fl_gt (fl_abs d) (Fin PROB_TOL) then Raise AssertionError
          else if list_ex (\<lambda>p. fl_lt p (Fin (- PROB_TOL)) \<or> fl_gt p (Fin (1 + PROB_TOL)))
                    [pu, pm, pd]
          then Raise AssertionError
          else Ok ())))"

text \<open>
  What \<open>Node.probas\<close> does before the \<open>try\<close> statement: the forward price and the
  variance, the middle successor (created when there is none) and its price.
\<close>

definition probas_prepare :: "rt \<Rightarrow> nat \<Rightarrow> (fl \<times> fl \<times> fl) comp" where
  "probas_prepare r a =
     seq (\<lambda>t. (forward_variance r t a, t)) (\<lambda>(expected_value, variance).
     seq (\<lambda>t. case next_mid (nodes t a) of
                 None \<Rightarrow> calc_next_mid r a None t
               | Some m \<Rightarrow> (Ok m, t)) (\<lambda>_.
     seq (\<lambda>t. case next_mid (nodes t a) of
                 None \<Rightarrow> (Raise AttributeError, t)
               | Some m \<Rightarrow> (Ok (und_price (nodes t m)), t)) (\<lambda>sm.
     ret (expected_value, variance, sm))))"

text \<open>
  What it does with the outcome of the \<open>try\<close> body: the handler of
  \<open>except Exception\<close>, then the checks and the assignment.
\<close>

definition probas_finish :: "rt \<Rightarrow> nat \<Rightarrow> (fl \<times> fl \<times> fl) res \<Rightarrow> unit comp" where
  "probas_finish r a body =
     (case body of
        Raise e \<Rightarrow> set_probas a (Fin 0) (Fin 1) (Fin 0)
      | NoReturn \<Rightarrow> (\<lambda>t. (NoReturn, t))
      | Ok ps \<Rightarrow>
          seq (lift (probas_check r ps)) (\<lambda>_.
            set_probas a (fst ps) (fst (snd ps)) (snd (snd ps))))"

definition probas :: "rt \<Rightarrow> nat \<Rightarrow> unit comp" where
  "probas r a =
     seq (\<lambda>t. (is_pruned t a, t)) (\<lambda>pruned.
     if pruned then set_probas a (Fin 0) (Fin 1) (Fin 0)
     else
       seq (probas_prepare r a) (\<lambda>(expected_value, variance, sm).
       (\<lambda>t. probas_finish r a (probas_formulas r t a expected_value variance sm) t)))"

definition next_nodes_probas :: "nat \<Rightarrow> unit comp" where
  "next_nodes_probas a t =
     (let n = nodes t a;
          probabilities = [p_up n, p_mid n, p_down n];
          succs = [next_up n, next_mid n, next_down n]
      in (Ok (),
          foldl (\<lambda>t' (nd, pr).
                   case nd of
                     None \<Rightarrow> t'
                   | Some s \<Rightarrow>
                       snd (upd s (\<lambda>x. x\<lparr>p_node :=
                              fl_add (p_node x) (fl_mul (p_node (nodes t' a)) pr)\<rparr>) t'))
                t (zip succs probabilities)))"

subsection \<open>Node.price\<close>

text \<open>
  The first argument after the environment is the number of nested calls of
  \<open>price\<close> that the interpreter still allows; at \<open>0\<close> the call raises
  \<open>RecursionError\<close>.
\<close>

fun price :: "rt \<Rightarrow> nat \<Rightarrow> nat \<Rightarrow> fl comp" where
  "price r 0 a = (\<lambda>t. (Raise RecursionError, t))"
| "price r (Suc d) a = (\<lambda>t.
     case opt_price (nodes t a) of
       Some p \<Rightarrow> (Ok p, t)
     | None \<Rightarrow>
        (case next_mid (nodes t a) of
           None \<Rightarrow>
             seq (upd a (\<lambda>n. n\<lparr>opt_price := Some (payoff (option_data t) (und_price n))\<rparr>))
               (\<lambda>_. ret (payoff (option_data t) (und_price (nodes t a)))) t
         | Some _ \<Rightarrow>
             seq (\<lambda>t. case next_up (nodes t a) of
                         Some u \<Rightarrow> price r d u t
                       | None \<Rightarrow> (Ok (Fin 0), t)) (\<lambda>price_up.
             seq (\<lambda>t. case next_down (nodes t a) of
                         Some dn \<Rightarrow> price r d dn t
                       | None \<Rightarrow> (Ok (Fin 0), t)) (\<lambda>price_down.
             seq (\<lambda>t. case next_mid (nodes t a) of
                         Some m \<Rightarrow> price r d m t
                       | None \<Rightarrow> (Raise AttributeError, t)) (\<lambda>price_mid.
             seq (\<lambda>t. (np_mul r
                          (np_add r
                             (np_add r (np_mul r (Ok price_up) (Ok (p_up (nodes t a))))
                                       (np_mul r (Ok price_mid) (Ok (p_mid (nodes t a)))))
                             (np_mul r (Ok price_down) (Ok (p_down (nodes t a)))))
                          (Ok (df t)), t)) (\<lambda>pr.
             seq (\<lambda>t. if is_american (option_data t)
                       then (let exercise = payoff (option_data t) (und_price (nodes t a))
                             in if fl_gt exercise pr
                                then seq (upd a (\<lambda>n. n\<lparr>is_exerced := True\<rparr>))
                                       (\<lambda>_. ret exercise) t
                                else (Ok pr, t))
                       else (Ok pr, t)) (\<lambda>p.
             seq (upd a (\<lambda>n. n\<lparr>opt_price := Some p\<rparr>)) (\<lambda>_. ret p)))))) t))"

section \<open>The tree: construction\<close>

definition blank_node :: node where
  \<comment> \<open>what the store holds at an address that no node was created at\<close>
  "blank_node =
     \<lparr>und_price = Fin 0, date = 0, opt_price = None,
      p_up = Fin 0, p_mid = Fin 0, p_down = Fin 0, p_node = Fin 0,
      next_up = None, next_mid = None, next_down = None,
      up_node = None, down_node = None,
      is_exerced = False, is_trunc = False, prec_node = None\<rparr>"

definition Tree :: "rt \<Rightarrow> pricer_parameters_t \<Rightarrow> market \<Rightarrow> pyoption \<Rightarrow> tree res" where
  \<comment> \<open>\<open>Tree.__init__\<close>; the division of the two integers is Python's own\<close>
  "Tree r pp md od =
     (if nb_steps pp * 365 = 0 then Raise ZeroDivisionError
      else
        (let dt = real_of_int (td_days (maturity od - pricing_date pp))
                  / real_of_int (nb_steps pp * 365)
         in res_bind (np_exp (Ok (Fin (- rate md * dt)))) (\<lambda>df_v.
            res_bind (np_exp (np_mul r (Ok (Fin (vol md))) (np_sqrt r (Ok (Fin (3 * dt))))))
              (\<lambda>alpha_v.
            Ok \<lparr>pricer_parameters = pp, market_data = md, option_data = od,
                delta_t = dt, df = df_v, alpha = alpha_v,
                root_t = None, last_t = None,
                nodes = (\<lambda>_. blank_node), nxt = 0\<rparr>))))"

definition above_floor :: "tree \<Rightarrow> nat \<Rightarrow> bool res" where
  \<comment> \<open>\<open>not pruning or node.p_node > p_min\<close>\<close>
  "above_floor t a =
     (if \<not> pruning (pricer_parameters t) then Ok True
      else (case p_min (pricer_parameters t) of
              None \<Rightarrow> Raise TypeError
            | Some pm \<Rightarrow> Ok (fl_gt (p_node (nodes t a)) (Fin pm))))"

definition build_triplet :: "rt \<Rightarrow> nat \<Rightarrow> nat option \<Rightarrow> nat comp" where
  "build_triplet r current_node nCandidate =
     seq (calc_next_mid r current_node nCandidate) (\<lambda>m.
     seq (upd current_node (\<lambda>n. n\<lparr>next_mid := Some m\<rparr>)) (\<lambda>_.
     seq (\<lambda>t. (above_floor t current_node, t)) (\<lambda>grow.
     seq (if grow
          then seq (calc_up_node r m) (\<lambda>u.
               seq (upd current_node (\<lambda>n. n\<lparr>next_up := Some u\<rparr>)) (\<lambda>_.
               seq (calc_down_node r m) (\<lambda>d.
               upd current_node (\<lambda>n. n\<lparr>next_down := Some d\<rparr>))))
          else ret ()) (\<lambda>_.
     seq (probas r current_node) (\<lambda>_.
     seq (next_nodes_probas current_node) (\<lambda>_. ret current_node))))))"

text \<open>Reading an attribute of a link: of \<open>None\<close> it is an \<open>AttributeError\<close>.\<close>

definition deref :: "nat option \<Rightarrow> nat comp" where
  "deref l t = (case l of None \<Rightarrow> (Raise AttributeError, t) | Some a \<Rightarrow> (Ok a, t))"

text \<open>
  The two loops of \<open>Tree.build_column\<close>, from the node \<open>parent_node\<close> on. The second
  argument is the step bound.
\<close>

fun column_up :: "rt \<Rightarrow> nat \<Rightarrow> nat \<Rightarrow> unit comp" where
  "column_up r 0 parent_node = (\<lambda>t. (NoReturn, t))"
| "column_up r (Suc k) parent_node = (\<lambda>t.
     case up_node (nodes t parent_node) of
       None \<Rightarrow> (Ok (), t)
     | Some p \<Rightarrow>
        seq (\<lambda>t. if \<not> pruning (pricer_parameters t) then (Ok True, t)
                  else seq (deref (down_node (nodes t p))) (\<lambda>dn t. (above_floor t dn, t)) t)
          (\<lambda>c.
        if c then
          seq (\<lambda>t. deref (down_node (nodes t p)) t) (\<lambda>dn.
          seq (\<lambda>t. upd p (\<lambda>n. n\<lparr>next_mid := next_up (nodes t dn)\<rparr>) t) (\<lambda>_.
          seq (\<lambda>t. build_triplet r p (next_mid (nodes t p)) t) (\<lambda>_.
          column_up r k p)))
        else
          seq (\<lambda>t. deref (down_node (nodes t p)) t) (\<lambda>dn.
          seq (\<lambda>t. build_triplet r p (next_up (nodes t dn)) t) (\<lambda>_.
          seq (\<lambda>t. deref (down_node (nodes t p)) t) (\<lambda>dn1.
          seq (\<lambda>t. deref (next_mid (nodes t p)) t) (\<lambda>m.
          seq (\<lambda>t. upd m (\<lambda>n. n\<lparr>down_node := next_mid (nodes t dn1)\<rparr>) t) (\<lambda>_.
          seq (\<lambda>t. deref (down_node (nodes t p)) t) (\<lambda>dn2.
          seq (\<lambda>t. deref (next_mid (nodes t dn2)) t) (\<lambda>dm.
          seq (\<lambda>t. upd dm (\<lambda>n. n\<lparr>up_node := next_mid (nodes t p)\<rparr>) t) (\<lambda>_.
          column_up r k p))))))))) t)"

fun column_down :: "rt \<Rightarrow> nat \<Rightarrow> nat \<Rightarrow> unit comp" where
  "column_down r 0 parent_node = (\<lambda>t. (NoReturn, t))"
| "column_down r (Suc k) parent_node = (\<lambda>t.
     case down_node (nodes t parent_node) of
       None \<Rightarrow> (Ok (), t)
     | Some p \<Rightarrow>
        seq (\<lambda>t. if \<not> pruning (pricer_parameters t) then (Ok True, t)
                  else seq (deref (up_node (nodes t p))) (\<lambda>un t. (above_floor t un, t)) t)
          (\<lambda>c.
        if c then
          seq (\<lambda>t. deref (up_node (nodes t p)) t) (\<lambda>un.
          seq (\<lambda>t. upd p (\<lambda>n. n\<lparr>next_mid := next_down (nodes t un)\<rparr>) t) (\<lambda>_.
          seq (\<lambda>t. deref (up_node (nodes t p)) t) (\<lambda>un1.
          seq (\<lambda>t. build_triplet r p (next_down (nodes t un1)) t) (\<lambda>_.
          column_down r k p))))
        else
          seq (\<lambda>t. deref (up_node (nodes t p)) t) (\<lambda>un.
          seq (\<lambda>t. build_triplet r p (next_down (nodes t un)) t) (\<lambda>_.
          seq (\<lambda>t. deref (up_node (nodes t p)) t) (\<lambda>un1.
          seq (\<lambda>t. deref (next_mid (nodes t p)) t) (\<lambda>m.
          seq (\<lambda>t. upd m (\<lambda>n. n\<lparr>up_node := next_mid (nodes t un1)\<rparr>) t) (\<lambda>_.
          seq (\<lambda>t. deref (up_node (nodes t p)) t) (\<lambda>un2.
          seq (\<lambda>t. deref (next_mid (nodes t un2)) t) (\<lambda>um.
          seq (\<lambda>t. upd um (\<lambda>n. n\<lparr>down_node := next_mid (nodes t p)\<rparr>) t) (\<lambda>_.
          column_down r k p))))))))) t)"

definition build_column :: "rt \<Rightarrow> nat option \<Rightarrow> nat option comp" where
  "build_column r current_trunc_node =
     seq (deref current_trunc_node) (\<lambda>c.
     seq (build_triplet r c None) (\<lambda>parent_trunc_node.
     seq (column_up r (loop_fuel r) parent_trunc_node) (\<lambda>_.
     seq (column_down r (loop_fuel r) parent_trunc_node) (\<lambda>_.
     (\<lambda>t. (Ok (next_mid (nodes t parent_trunc_node)), t))))))"

fun build_columns :: "rt \<Rightarrow> nat \<Rightarrow> nat option \<Rightarrow> nat option comp" where
  \<comment> \<open>the \<open>for\<close> loop of \<open>make_tree\<close>, with the number of iterations left\<close>
  "build_columns r 0 current_trunc_node = ret current_trunc_node"
| "build_columns r (Suc n) current_trunc_node =
     seq (build_column r current_trunc_node) (\<lambda>c. build_columns r n c)"

definition make_tree :: "rt \<Rightarrow> unit comp" where
  "make_tree r = (\<lambda>t.
     if pruning (pricer_parameters t) \<and> p_min (pricer_parameters t) = None
     then (Raise ValueError, t)
     else
       seq (new_node (Fin (s0 (market_data t))) (pricing_date (pricer_parameters t)) True None)
         (\<lambda>ro.
       seq (\<lambda>t. (Ok (), t\<lparr>root_t := Some ro\<rparr>)) (\<lambda>_.
       seq (upd ro (\<lambda>n. n\<lparr>p_node := Fin 1\<rparr>)) (\<lambda>_.
       seq (\<lambda>t. build_columns r (nat (nb_steps (pricer_parameters t))) (root_t t) t) (\<lambda>c.
       (\<lambda>t. (Ok (), t\<lparr>last_t := c\<rparr>)))))) t)"

section \<open>The tree: pricing\<close>

definition recursive_pricing :: "rt \<Rightarrow> fl option comp" where
  \<comment> \<open>the result \<open>None\<close> is Python's \<open>None\<close>, returned after the \<open>print\<close> of the handler\<close>
  "recursive_pricing r = (\<lambda>t.
     case seq (make_tree r) (\<lambda>_.
          seq (\<lambda>t. deref (root_t t) t) (\<lambda>ro. price r (rec_limit r) ro)) t of
       (Ok p, t') \<Rightarrow> (Ok (Some p), t')
     | (Raise e, t') \<Rightarrow> if e = RecursionError then (Ok None, t') else (Raise e, t')
     | (NoReturn, t') \<Rightarrow> (NoReturn, t'))"

fun price_up_nodes :: "rt \<Rightarrow> nat \<Rightarrow> nat \<Rightarrow> unit comp" where
  "price_up_nodes r 0 current_node = (\<lambda>t. (NoReturn, t))"
| "price_up_nodes r (Suc k) current_node = (\<lambda>t.
     case up_node (nodes t current_node) of
       None \<Rightarrow> (Ok (), t)
     | Some u \<Rightarrow> seq (price r (rec_limit r) u) (\<lambda>_. price_up_nodes r k u) t)"

fun price_down_nodes :: "rt \<Rightarrow> nat \<Rightarrow> nat \<Rightarrow> unit comp" where
  "price_down_nodes r 0 current_node = (\<lambda>t. (NoReturn, t))"
| "price_down_nodes r (Suc k) current_node = (\<lambda>t.
     case down_node (nodes t current_node) of
       None \<Rightarrow> (Ok (), t)
     | Some d \<Rightarrow> seq (price r (rec_limit r) d) (\<lambda>_. price_down_nodes r k d) t)"

text \<open>
  The outer loop of \<open>backward_pricing\<close>; it returns the node the loop stops at. Only a
  \<open>TruncNode\<close> has a \<open>prec_node\<close>.
\<close>

fun backward_columns :: "rt \<Rightarrow> nat \<Rightarrow> nat option \<Rightarrow> nat comp" where
  "backward_columns r 0 current_trunc_node = (\<lambda>t. (NoReturn, t))"
| "backward_columns r (Suc k) current_trunc_node =
     seq (deref current_trunc_node) (\<lambda>c t.
       if pricing_date (pricer_parameters t) < date (nodes t c)
       then seq (price r (rec_limit r) c) (\<lambda>_.
            seq (price_up_nodes r (loop_fuel r) c) (\<lambda>_.
            seq (price_down_nodes r (loop_fuel r) c) (\<lambda>_.
            (\<lambda>t. if is_trunc (nodes t c)
                 then backward_columns r k (prec_node (nodes t c)) t
                 else (Raise AttributeError, t))))) t
       else (Ok c, t))"

definition backward_pricing :: "rt \<Rightarrow> fl option comp" where
  "backward_pricing r =
     seq (make_tree r) (\<lambda>_.
     seq (\<lambda>t. backward_columns r (loop_fuel r) (last_t t) t) (\<lambda>c.
     seq (price r (rec_limit r) c) (\<lambda>_.
     (\<lambda>t. (Ok (opt_price (nodes t c)), t)))))"

section \<open>Numerical Greeks\<close>

text \<open>
  \<open>greeks_price\<close> is the module function \<open>_price\<close>. Each call builds a tree of its
  own, so nothing of the tree outlives the call. A price is \<open>None\<close> only after the
  handler of \<open>recursive_pricing\<close>; arithmetic with \<open>None\<close> is a \<open>TypeError\<close>.
  The differences of prices are numpy operations, as the prices of a tree are numpy
  scalars.
\<close>

definition greeks_price :: "rt \<Rightarrow> market \<Rightarrow> pyoption \<Rightarrow> datetime \<Rightarrow> int \<Rightarrow> string \<Rightarrow> fl option res" where
  "greeks_price r mkt opt pricing_date_v n_steps method =
     (let params = \<lparr>pricing_date = pricing_date_v, nb_steps = n_steps,
                     pruning = True, p_min = Some (1 / 10 ^ 7)\<rparr>
      in res_bind (Tree r params mkt opt) (\<lambda>tr.
           if method = ''backward'' then fst (backward_pricing r tr)
           else fst (recursive_pricing r tr)))"

definition num :: "fl option res \<Rightarrow> fl res" where
  "num p = res_bind p (\<lambda>v. case v of None \<Rightarrow> Raise TypeError | Some x \<Rightarrow> Ok x)"

definition bump_market :: "market \<Rightarrow> real \<Rightarrow> real \<Rightarrow> real \<Rightarrow> real \<Rightarrow> market res" where
  \<comment> \<open>\<open>Market(s, r, v, d, mkt.ex_div_date)\<close>\<close>
  "bump_market mkt s rv v d = Market s rv v d (Some (ex_div_date mkt))"

definition delta :: "rt \<Rightarrow> market \<Rightarrow> int \<Rightarrow> datetime \<Rightarrow> pyoption \<Rightarrow> real \<Rightarrow> fl res" where
  "delta r mkt n_steps pd opt h =
     (let S0 = s0 mkt
      in res_bind (bump_market mkt (S0 * (1 + h)) (rate mkt) (vol mkt) (dividend mkt)) (\<lambda>up.
         res_bind (bump_market mkt (S0 * (1 - h)) (rate mkt) (vol mkt) (dividend mkt)) (\<lambda>down.
         res_bind (greeks_price r up opt pd n_steps ''backward'') (\<lambda>pu.
         res_bind (greeks_price r down opt pd n_steps ''backward'') (\<lambda>pd'.
         np_div r (np_sub r (num (Ok pu)) (num (Ok pd'))) (Ok (Fin (S0 * 2 * h))))))))"

definition gamma :: "rt \<Rightarrow> market \<Rightarrow> int \<Rightarrow> datetime \<Rightarrow> pyoption \<Rightarrow> real \<Rightarrow> fl res" where
  "gamma r mkt n_steps pd opt h =
     (let S0 = s0 mkt
      in res_bind (bump_market mkt (S0 * (1 + h)) (rate mkt) (vol mkt) (dividend mkt)) (\<lambda>up.
         res_bind (bump_market mkt (S0 * (1 - h)) (rate mkt) (vol mkt) (dividend mkt)) (\<lambda>down.
         res_bind (greeks_price r up opt pd n_steps ''backward'') (\<lambda>pu.
         res_bind (greeks_price r mkt opt pd n_steps ''backward'') (\<lambda>pm.
         res_bind (greeks_price r down opt pd n_steps ''backward'') (\<lambda>pd'.
         np_div r (np_add r (np_sub r (num (Ok pu)) (np_mul r (Ok (Fin 2)) (num (Ok pm))))
                            (num (Ok pd')))
                  (Ok (Fin ((S0 * h)\<^sup>2)))))))))"

definition vega :: "rt \<Rightarrow> market \<Rightarrow> int \<Rightarrow> datetime \<Rightarrow> pyoption \<Rightarrow> real \<Rightarrow> fl res" where
  "vega r mkt n_steps pd opt h =
     (let sigma = vol mkt
      in res_bind (bump_market mkt (s0 mkt) (rate mkt) (sigma * (1 + h)) (dividend mkt)) (\<lambda>up.
         res_bind (bump_market mkt (s0 mkt) (rate mkt) (sigma * (1 - h)) (dividend mkt)) (\<lambda>down.
         res_bind (greeks_price r up opt pd n_steps ''backward'') (\<lambda>pu.
         res_bind (greeks_price r down opt pd n_steps ''backward'') (\<lambda>pd'.
         np_div r (np_sub r (num (Ok pu)) (num (Ok pd'))) (Ok (Fin (2 * sigma * h))))))))"

definition theta :: "rt \<Rightarrow> market \<Rightarrow> int \<Rightarrow> datetime \<Rightarrow> pyoption \<Rightarrow> int \<Rightarrow> fl res" where
  "theta r mkt n_steps pd opt days =
     (let up_date = pd + days * us_per_day
      in res_bind (greeks_price r mkt opt pd n_steps ''backward'') (\<lambda>p0.
         res_bind (greeks_price r mkt opt up_date n_steps ''backward'') (\<lambda>p1.
         np_div r (np_sub r (num (Ok p1)) (num (Ok p0))) (Ok (Fin (real_of_int days))))))"

definition rho :: "rt \<Rightarrow> market \<Rightarrow> int \<Rightarrow> datetime \<Rightarrow> pyoption \<Rightarrow> real \<Rightarrow> fl res" where
  "rho r mkt n_steps pd opt h =
     (let rv = rate mkt
      in res_bind (bump_market mkt (s0 mkt) (rv + h) (vol mkt) (dividend mkt)) (\<lambda>up.
         res_bind (bump_market mkt (s0 mkt) (rv - h) (vol mkt) (dividend mkt)) (\<lambda>down.
         res_bind (greeks_price r up opt pd n_steps ''backward'') (\<lambda>pu.
         res_bind (greeks_price r down opt pd n_steps ''backward'') (\<lambda>pd'.
         np_div r (np_sub r (num (Ok pu)) (num (Ok pd'))) (Ok (Fin (2 * h))))))))"

definition vanna :: "rt \<Rightarrow> market \<Rightarrow> int \<Rightarrow> datetime \<Rightarrow> pyoption \<Rightarrow> real \<Rightarrow> real \<Rightarrow> fl res" where
  "vanna r mkt n_steps pd opt h_s h_sigma =
     (let S0 = s0 mkt; sigma = vol mkt;
          pr = (\<lambda>s v. res_bind (bump_market mkt s (rate mkt) v (dividend mkt))
                        (\<lambda>m. greeks_price r m opt pd n_steps ''backward''))
      in res_bind (pr (S0 * (1 + h_s)) (sigma * (1 + h_sigma))) (\<lambda>p_pp.
         res_bind (pr (S0 * (1 + h_s)) (sigma * (1 - h_sigma))) (\<lambda>p_pm.
         res_bind (pr (S0 * (1 - h_s)) (sigma * (1 + h_sigma))) (\<lambda>p_mp.
         res_bind (pr (S0 * (1 - h_s)) (sigma * (1 - h_sigma))) (\<lambda>p_mm.
         np_div r (np_add r (np_sub r (np_sub r (num (Ok p_pp)) (num (Ok p_pm)))
                                      (num (Ok p_mp)))
                            (num (Ok p_mm)))
                  (Ok (Fin (4 * S0 * h_s * sigma * h_sigma))))))))"

definition vomma :: "rt \<Rightarrow> market \<Rightarrow> int \<Rightarrow> datetime \<Rightarrow> pyoption \<Rightarrow> real \<Rightarrow> fl res" where
  "vomma r mkt n_steps pd opt h =
     (let sigma = vol mkt;
          pr = (\<lambda>v. res_bind (bump_market mkt (s0 mkt) (rate mkt) v (dividend mkt))
                      (\<lambda>m. greeks_price r m opt pd n_steps ''backward''))
      in res_bind (pr (sigma * (1 + h))) (\<lambda>pu.
         res_bind (pr (sigma * (1 - h))) (\<lambda>pd'.
         res_bind (greeks_price r mkt opt pd n_steps ''backward'') (\<lambda>p0.
         np_div r (np_add r (np_sub r (num (Ok pu)) (np_mul r (Ok (Fin 2)) (num (Ok p0))))
                            (num (Ok pd')))
                  (Ok (Fin ((sigma * h)\<^sup>2)))))))"

definition lambda_elasticity :: "rt \<Rightarrow> market \<Rightarrow> int \<Rightarrow> datetime \<Rightarrow> pyoption \<Rightarrow> real \<Rightarrow> fl res" where
  "lambda_elasticity r mkt n_steps pd opt h =
     res_bind (greeks_price r mkt opt pd n_steps ''backward'') (\<lambda>V.
     res_bind (delta r mkt n_steps pd opt h) (\<lambda>d.
     if V \<noteq> Some (Fin 0)
     then np_div r (np_mul r (Ok d) (Ok (Fin (s0 mkt)))) (num (Ok V))
     else Ok (Fin 0)))"

subsection \<open>The estimators that take \<open>*args\<close> and \<open>**kwargs\<close>\<close>

text \<open>
  A positional or keyword argument is a Python value. An argument of the wrong type
  raises where the code first uses it as a market, a number or a date.
\<close>

datatype pyval = VMarket market | VOption pyoption | VDate datetime | VInt int | VFloat real

definition as_market :: "pyval \<Rightarrow> market res" where
  "as_market v = (case v of VMarket m \<Rightarrow> Ok m | _ \<Rightarrow> Raise AttributeError)"

definition as_option :: "pyval \<Rightarrow> pyoption res" where
  "as_option v = (case v of VOption opt \<Rightarrow> Ok opt | _ \<Rightarrow> Raise AttributeError)"

definition as_date :: "pyval \<Rightarrow> datetime res" where
  "as_date v = (case v of VDate d \<Rightarrow> Ok d | _ \<Rightarrow> Raise TypeError)"

definition as_int :: "pyval \<Rightarrow> int res" where
  "as_int v = (case v of VInt n \<Rightarrow> Ok n | _ \<Rightarrow> Raise TypeError)"

definition as_real :: "pyval \<Rightarrow> real res" where
  "as_real v =
     (case v of VInt n \<Rightarrow> Ok (real_of_int n) | VFloat x \<Rightarrow> Ok x | _ \<Rightarrow> Raise TypeError)"

definition kwargs_get :: "(string \<Rightarrow> pyval option) \<Rightarrow> string \<Rightarrow> pyval \<Rightarrow> pyval" where
  \<comment> \<open>\<open>kwargs.get(key, default)\<close>\<close>
  "kwargs_get kwargs k dflt = (case kwargs k of None \<Rightarrow> dflt | Some v \<Rightarrow> v)"

definition arg :: "pyval list \<Rightarrow> nat \<Rightarrow> pyval res" where
  \<comment> \<open>\<open>args[i]\<close>\<close>
  "arg args i = (if i < length args then Ok (args ! i) else Raise IndexError)"

definition first_four :: "pyval list \<Rightarrow> (pyval \<times> pyval \<times> pyval \<times> pyval) res" where
  \<comment> \<open>the body of the \<open>try\<close> statement that opens each of these estimators\<close>
  "first_four args =
     res_bind (arg args 0) (\<lambda>mkt.
     res_bind (arg args 1) (\<lambda>n_steps.
     res_bind (arg args 2) (\<lambda>pd.
     res_bind (arg args 3) (\<lambda>opt. Ok (mkt, n_steps, pd, opt)))))"

definition charm :: "rt \<Rightarrow> pyval list \<Rightarrow> (string \<Rightarrow> pyval option) \<Rightarrow> fl res" where
  "charm r args kwargs =
     (case first_four args of
        Raise e \<Rightarrow> Ok (Fin 0)
      | NoReturn \<Rightarrow> NoReturn
      | Ok (mkt, n_steps, pd, opt) \<Rightarrow>
          (let days = kwargs_get kwargs ''days'' (VInt 1);
               h = kwargs_get kwargs ''h'' (VFloat (1 / 100))
           in res_bind (as_market mkt) (\<lambda>m.
              res_bind (as_int n_steps) (\<lambda>n.
              res_bind (as_date pd) (\<lambda>d.
              res_bind (as_option opt) (\<lambda>opt'.
              res_bind (as_real h) (\<lambda>hv.
              res_bind (delta r m n d opt' hv) (\<lambda>delta_now.
              res_bind (as_real days) (\<lambda>dv.
              res_bind (delta r m n (d + timedelta_days dv) opt' hv) (\<lambda>delta_later.
              np_div r (np_sub r (Ok delta_later) (Ok delta_now)) (Ok (Fin dv))))))))))))"

definition speed :: "rt \<Rightarrow> pyval list \<Rightarrow> (string \<Rightarrow> pyval option) \<Rightarrow> fl res" where
  "speed r args kwargs =
     (case first_four args of
        Raise e \<Rightarrow> Ok (Fin 0)
      | NoReturn \<Rightarrow> NoReturn
      | Ok (mkt, n_steps, pd, opt) \<Rightarrow>
          (let h = kwargs_get kwargs ''h'' (VFloat (1 / 100))
           in res_bind (as_market mkt) (\<lambda>m.
              res_bind (as_real h) (\<lambda>hv.
              (let S0 = s0 m; eps = max (1 / 1000) (S0 * hv)
               in res_bind (bump_market m (S0 + eps) (rate m) (vol m) (dividend m)) (\<lambda>up.
                  res_bind (bump_market m (S0 - eps) (rate m) (vol m) (dividend m)) (\<lambda>down.
                  res_bind (as_int n_steps) (\<lambda>n.
                  res_bind (as_date pd) (\<lambda>d.
                  res_bind (as_option opt) (\<lambda>opt'.
                  res_bind (gamma r up n d opt' hv) (\<lambda>g_up.
                  res_bind (gamma r down n d opt' hv) (\<lambda>g_down.
                  np_div r (np_sub r (Ok g_up) (Ok g_down)) (Ok (Fin (2 * eps)))))))))))))))"

definition zomma :: "rt \<Rightarrow> pyval list \<Rightarrow> (string \<Rightarrow> pyval option) \<Rightarrow> fl res" where
  "zomma r args kwargs =
     (case first_four args of
        Raise e \<Rightarrow> Ok (Fin 0)
      | NoReturn \<Rightarrow> NoReturn
      | Ok (mkt, n_steps, pd, opt) \<Rightarrow>
          (let h = kwargs_get kwargs ''h'' (VFloat (1 / 100))
           in res_bind (as_market mkt) (\<lambda>m.
              res_bind (as_real h) (\<lambda>hv.
              (let sigma = vol m; eps = max (1 / 10000) (sigma * hv)
               in res_bind (bump_market m (s0 m) (rate m) (sigma + eps) (dividend m)) (\<lambda>up.
                  res_bind (bump_market m (s0 m) (rate m) (sigma - eps) (dividend m)) (\<lambda>down.
                  res_bind (as_int n_steps) (\<lambda>n.
                  res_bind (as_date pd) (\<lambda>d.
                  res_bind (as_option opt) (\<lambda>opt'.
                  res_bind (gamma r up n d opt' hv) (\<lambda>g_up.
                  res_bind (gamma r down n d opt' hv) (\<lambda>g_down.
                  np_div r (np_sub r (Ok g_up) (Ok g_down)) (Ok (Fin (2 * eps)))))))))))))))"

definition dividend_rho :: "rt \<Rightarrow> pyval list \<Rightarrow> (string \<Rightarrow> pyval option) \<Rightarrow> fl res" where
  "dividend_rho r args kwargs =
     (case first_four args of
        Raise e \<Rightarrow> Ok (Fin 0)
      | NoReturn \<Rightarrow> NoReturn
      | Ok (mkt, n_steps, pd, opt) \<Rightarrow>
          (let h = kwargs_get kwargs ''h'' (VFloat (1 / 100));
               base_div = (case mkt of VMarket m \<Rightarrow> dividend m | _ \<Rightarrow> 0)
           in res_bind (as_market mkt) (\<lambda>m.
              res_bind (as_real h) (\<lambda>hv.
              res_bind (bump_market m (s0 m) (rate m) (vol m) (base_div + hv)) (\<lambda>up.
              res_bind (bump_market m (s0 m) (rate m) (vol m) (max (base_div - hv) 0)) (\<lambda>down.
              res_bind (as_option opt) (\<lambda>opt'.
              res_bind (as_date pd) (\<lambda>d.
              res_bind (as_int n_steps) (\<lambda>n.
              res_bind (greeks_price r up opt' d n ''backward'') (\<lambda>pu.
              res_bind (greeks_price r down opt' d n ''backward'') (\<lambda>pd'.
              np_div r (np_sub r (num (Ok pu)) (num (Ok pd'))) (Ok (Fin (2 * hv))))))))))))))"

section \<open>The specification's formulas\<close>

text \<open>
  The definitions of this section follow the words of the specification, to be compared
  with what the code computes.
\<close>

definition simplified_formula :: "rt \<Rightarrow> real \<Rightarrow> real \<Rightarrow> fl \<Rightarrow> (fl \<times> fl \<times> fl) res" where
  \<comment> \<open>\<open>pDown = (exp(sigma^2*deltaT) - 1) / ((1 - alpha)*(alpha^-2 - 1))\<close>,
      \<open>pUp = pDown/alpha\<close>, \<open>pMid = 1 - pUp - pDown\<close>; the result is
      \<open>(pUp, pMid, pDown)\<close>\<close>
  "simplified_formula r sigma deltaT al =
     res_bind (np_div r (np_sub r (np_exp (Ok (Fin (sigma\<^sup>2 * deltaT)))) (Ok (Fin 1)))
                        (np_mul r (np_sub r (Ok (Fin 1)) (Ok al))
                                  (np_sub r (np_powi r (Ok al) (- 2)) (Ok (Fin 1))))) (\<lambda>pDown.
     res_bind (np_div r (Ok pDown) (Ok al)) (\<lambda>pUp.
     res_bind (np_sub r (np_sub r (Ok (Fin 1)) (Ok pUp)) (Ok pDown)) (\<lambda>pMid.
     Ok (pUp, pMid, pDown))))"

definition expected_term :: "rt \<Rightarrow> fl \<Rightarrow> fl \<Rightarrow> fl res" where
  \<comment> \<open>\<open>expectedTerm = (F - middlePrice) / middlePrice\<close>\<close>
  "expected_term r F middlePrice = np_div r (np_sub r (Ok F) (Ok middlePrice)) (Ok middlePrice)"

definition variance_term :: "rt \<Rightarrow> fl \<Rightarrow> fl \<Rightarrow> fl \<Rightarrow> fl res" where
  \<comment> \<open>\<open>varianceTerm = (Var + (F + middlePrice)(F - middlePrice)) / middlePrice^2\<close>\<close>
  "variance_term r Var F middlePrice =
     np_div r (np_add r (Ok Var)
                 (np_mul r (np_add r (Ok F) (Ok middlePrice)) (np_sub r (Ok F) (Ok middlePrice))))
              (np_powi r (Ok middlePrice) 2)"


definition ex_date_in_step :: "tree \<Rightarrow> nat \<Rightarrow> bool" where
  \<comment> \<open>the ex-dividend date is in the half-open interval \<open>(date, date + deltaT]\<close>\<close>
  "ex_date_in_step t a =
     (date (nodes t a) < ex_div_date (market_data t)
      \<and> ex_div_date (market_data t) \<le> date (nodes t a) + timedelta_days (delta_t t * 365))"

definition step_tol :: "tree \<Rightarrow> timedelta" where
  \<comment> \<open>the tolerance of \<open>dividend_period\<close>: a thousandth of a day divided by the number
      of steps (at least one)\<close>
  "step_tol t = td_div (td_div us_per_day (max 1 (nb_steps (pricer_parameters t)))) 1000"

definition ex_date_in_shifted_step :: "tree \<Rightarrow> nat \<Rightarrow> bool" where
  \<comment> \<open>the ex-dividend date is in the step moved later by the tolerance:
      \<open>[date + max(1 microsecond, tol), date + deltaT + tol)\<close>\<close>
  "ex_date_in_shifted_step t a =
     (date (nodes t a) + max 1 (step_tol t) \<le> ex_div_date (market_data t)
      \<and> ex_div_date (market_data t)
          < date (nodes t a) + timedelta_days (delta_t t * 365) + step_tol t)"

definition pd_simple :: "real \<Rightarrow> real \<Rightarrow> real \<Rightarrow> real" where
  \<comment> \<open>the simplified formula on real numbers\<close>
  "pd_simple sigma dt al = (exp (sigma\<^sup>2 * dt) - 1) / ((1 - al) * (1 / al\<^sup>2 - 1))"

definition pu_simple :: "real \<Rightarrow> real \<Rightarrow> real \<Rightarrow> real" where
  "pu_simple sigma dt al = pd_simple sigma dt al / al"

definition pm_simple :: "real \<Rightarrow> real \<Rightarrow> real \<Rightarrow> real" where
  "pm_simple sigma dt al = 1 - pu_simple sigma dt al - pd_simple sigma dt al"

definition al_of :: "real \<Rightarrow> real \<Rightarrow> real" where
  \<comment> \<open>the multiplier \<open>alpha = exp(sigma * sqrt(3 * deltaT))\<close> of a tree\<close>
  "al_of sigma dt = exp (sigma * sqrt (3 * dt))"

text \<open>
  The stencils of the specification, on prices that have been computed. \<open>h\<close> is the
  step of the perturbed input.
\<close>

definition central_first :: "rt \<Rightarrow> fl \<Rightarrow> fl \<Rightarrow> real \<Rightarrow> fl res" where
  \<comment> \<open>\<open>(f(x+h) - f(x-h)) / (2h)\<close>\<close>
  "central_first r f_plus f_minus h =
     np_div r (np_sub r (Ok f_plus) (Ok f_minus)) (Ok (Fin (2 * h)))"

definition central_second :: "rt \<Rightarrow> fl \<Rightarrow> fl \<Rightarrow> fl \<Rightarrow> real \<Rightarrow> fl res" where
  \<comment> \<open>\<open>(f(x+h) - 2f(x) + f(x-h)) / h^2\<close>\<close>
  "central_second r f_plus f_mid f_minus h =
     np_div r (np_add r (np_sub r (Ok f_plus) (np_mul r (Ok (Fin 2)) (Ok f_mid))) (Ok f_minus))
              (Ok (Fin (h\<^sup>2)))"

definition cross_stencil :: "rt \<Rightarrow> fl \<Rightarrow> fl \<Rightarrow> fl \<Rightarrow> fl \<Rightarrow> real \<Rightarrow> real \<Rightarrow> fl res" where
  \<comment> \<open>the 4-point stencil divided by \<open>4 * h_a * h_b\<close>\<close>
  "cross_stencil r f_pp f_pm f_mp f_mm h_a h_b =
     np_div r (np_add r (np_sub r (np_sub r (Ok f_pp) (Ok f_pm)) (Ok f_mp)) (Ok f_mm))
              (Ok (Fin (4 * h_a * h_b)))"

definition forward_first :: "rt \<Rightarrow> fl \<Rightarrow> fl \<Rightarrow> real \<Rightarrow> fl res" where
  \<comment> \<open>the one-sided difference \<open>(f(x+h) - f(x)) / h\<close>\<close>
  "forward_first r f_now f_later h = np_div r (np_sub r (Ok f_later) (Ok f_now)) (Ok (Fin h))"

definition elasticity :: "rt \<Rightarrow> real \<Rightarrow> fl \<Rightarrow> fl \<Rightarrow> fl res" where
  \<comment> \<open>\<open>S0 * Delta / V\<close>, and \<open>0\<close> when the price \<open>V\<close> is zero\<close>
  "elasticity r S d V =
     (if V \<noteq> Fin 0 then np_div r (np_mul r (Ok d) (Ok (Fin S))) (Ok V) else Ok (Fin 0))"

definition pruned_backward_price :: "rt \<Rightarrow> pyoption \<Rightarrow> int \<Rightarrow> datetime \<Rightarrow> market \<Rightarrow> fl res" where
  \<comment> \<open>the price of an instance by \<open>backward_pricing\<close>, under pruning with the
      probability floor \<open>1e-7\<close>\<close>
  "pruned_backward_price r opt n d m =
     num (res_bind (Tree r \<lparr>pricing_date = d, nb_steps = n, pruning = True,
                             p_min = Some (1 / 10 ^ 7)\<rparr> m opt)
            (\<lambda>tr. fst (backward_pricing r tr)))"

definition set_dividend :: "market \<Rightarrow> real \<Rightarrow> market" where
  \<comment> \<open>the market with another dividend amount, as \<open>Market\<close> builds it: a market
      without dividend has the sentinel ex-dividend date\<close>
  "set_dividend mkt d =
     mkt\<lparr>dividend := d, ex_div_date := if d \<noteq> 0 then ex_div_date mkt else sentinel_date\<rparr>"

section \<open>Example inputs\<close>

definition rt_default :: rt where
  \<comment> \<open>numpy's default error state and CPython's default recursion limit\<close>
  "rt_default = \<lparr>np_raise = False, rec_limit = 1000, loop_fuel = 1000\<rparr>"

definition day :: "int \<Rightarrow> datetime" where
  "day n = n * us_per_day"

definition mkt_ex :: market where
  \<comment> \<open>\<open>Market(100.0, 0.05, 0.2)\<close>\<close>
  "mkt_ex = \<lparr>s0 = 100, rate = 1 / 20, vol = 1 / 5, dividend = 0, ex_div_date = sentinel_date\<rparr>"

definition call_ex :: pyoption where
  \<comment> \<open>a European call struck at 90 that matures on day 365\<close>
  "call_ex = \<lparr>K = 90, maturity = day 365, call_put = ''call'', eur_am = ''european''\<rparr>"

definition params_no_floor :: pricer_parameters_t where
  \<comment> \<open>\<open>PricerParameters(day 0, 1, pruning=True, p_min=None)\<close>\<close>
  "params_no_floor = \<lparr>pricing_date = day 0, nb_steps = 1, pruning = True, p_min = None\<rparr>"

definition tree_pruned_ex :: tree where
  \<comment> \<open>a tree with the floor \<open>0.5\<close> and one node, at address \<open>0\<close>, reached with
      probability \<open>0.1\<close>\<close>
  "tree_pruned_ex =
     \<lparr>pricer_parameters =
        \<lparr>pricing_date = day 0, nb_steps = 10, pruning = True, p_min = Some (1 / 2)\<rparr>,
      market_data = mkt_ex, option_data = call_ex,
      delta_t = 1 / 10, df = Fin (exp (- (1 / 200))), alpha = Fin (exp (sqrt (3 / 10) / 5)),
      root_t = None, last_t = None,
      nodes = (\<lambda>_. blank_node)(0 := blank_node\<lparr>und_price := Fin 100, p_node := Fin (1 / 10),
                                                 is_trunc := True\<rparr>),
      nxt = 1\<rparr>"

definition rt_raise :: rt where
  \<comment> \<open>as \<open>rt_default\<close>, after \<open>np.seterr(all='raise')\<close>\<close>
  "rt_raise = \<lparr>np_raise = True, rec_limit = 1000, loop_fuel = 1000\<rparr>"

definition tree_two :: "market \<Rightarrow> fl \<Rightarrow> fl \<Rightarrow> tree" where
  \<comment> \<open>a one-step tree over one year, without pruning: the root, at address \<open>0\<close> with
      the price \<open>100\<close>, and its middle successor, at address \<open>1\<close> with the price
      \<open>mid\<close>\<close>
  "tree_two m al mid =
     \<lparr>pricer_parameters =
        \<lparr>pricing_date = day 0, nb_steps = 1, pruning = False, p_min = Some (1 / 10 ^ 9)\<rparr>,
      market_data = m, option_data = call_ex,
      delta_t = 1, df = Fin (exp (- rate m)), alpha = al,
      root_t = Some 0, last_t = None,
      nodes = (\<lambda>_. blank_node)
        (0 := blank_node\<lparr>und_price := Fin 100, date := day 0, p_node := Fin 1,
                          next_mid := Some 1, is_trunc := True\<rparr>,
         1 := blank_node\<lparr>und_price := mid, date := day 365, is_trunc := True,
                          prec_node := Some 0\<rparr>),
      nxt = 2\<rparr>"

definition mkt_flat :: market where
  \<comment> \<open>\<open>Market(100.0, 0.05, 0.0)\<close>\<close>
  "mkt_flat = \<lparr>s0 = 100, rate = 1 / 20, vol = 0, dividend = 0, ex_div_date = sentinel_date\<rparr>"

definition mkt_div :: "datetime \<Rightarrow> market" where
  \<comment> \<open>\<open>Market(100.0, 0.05, 0.2, 3.0, ex)\<close>\<close>
  "mkt_div ex = \<lparr>s0 = 100, rate = 1 / 20, vol = 1 / 5, dividend = 3, ex_div_date = ex\<rparr>"

definition rt_shallow :: rt where
  \<comment> \<open>an interpreter with room for one call of \<open>Node.price\<close> only\<close>
  "rt_shallow = \<lparr>np_raise = False, rec_limit = 1, loop_fuel = 1000\<rparr>"

definition params_one_step :: pricer_parameters_t where
  \<comment> \<open>\<open>PricerParameters(day 0, 1)\<close>, with the defaults \<open>pruning=False\<close>, \<open>p_min=1e-9\<close>\<close>
  "params_one_step =
     \<lparr>pricing_date = day 0, nb_steps = 1, pruning = False, p_min = Some (1 / 10 ^ 9)\<rparr>"

definition call_half_day :: pyoption where
  \<comment> \<open>a European call struck at 90 that matures twelve hours after day 0\<close>
  "call_half_day =
     \<lparr>K = 90, maturity = 43200000000, call_put = ''call'', eur_am = ''european''\<rparr>"

definition new_tree :: "pricer_parameters_t \<Rightarrow> market \<Rightarrow> pyoption \<Rightarrow> real \<Rightarrow> fl \<Rightarrow> fl \<Rightarrow> tree" where
  \<comment> \<open>a tree as the constructor leaves it, with the time step, the discount factor and
      the multiplier given\<close>
  "new_tree pp md od dt dfv al =
     \<lparr>pricer_parameters = pp, market_data = md, option_data = od,
      delta_t = dt, df = dfv, alpha = al, root_t = None, last_t = None,
      nodes = (\<lambda>_. blank_node), nxt = 0\<rparr>"

definition mkt_zero :: market where
  \<comment> \<open>\<open>Market(0.0, 0.05, 0.2)\<close>\<close>
  "mkt_zero = \<lparr>s0 = 0, rate = 1 / 20, vol = 1 / 5, dividend = 0, ex_div_date = sentinel_date\<rparr>"

definition put_ex :: pyoption where
  \<comment> \<open>a European put struck at 100 that matures on day 365\<close>
  "put_ex = \<lparr>K = 100, maturity = day 365, call_put = ''put'', eur_am = ''european''\<rparr>"

definition params_greeks :: "datetime \<Rightarrow> pricer_parameters_t" where
  \<comment> \<open>\<open>PricerParameters(d, 1, pruning=True, p_min=1e-7)\<close>\<close>
  "params_greeks d = \<lparr>pricing_date = d, nb_steps = 1, pruning = True, p_min = Some (1 / 10 ^ 7)\<rparr>"

section \<open>Properties\<close>

lemmas np_defs =
  np_add_def np_sub_def np_mul_def np_div_def np_powi_def np_sqrt_def np_exp_def
  signal_def add_signals_def mul_signals_def div_signals_def sqrt_signals_def
  powi_signals_def fl_sub_def fl_gt_def fl_ge_def py_max_def inf_of_sign_def

lemmas comp_defs = seq_def ret_def lift_def upd_def new_node_def deref_def set_probas_def

lemmas find_up_num = find_up.simps(2) [of _ "pred_numeral k" for k, folded numeral_eq_Suc]
lemmas find_down_num = find_down.simps(2) [of _ "pred_numeral k" for k, folded numeral_eq_Suc]
lemmas column_up_num = column_up.simps(2) [of _ "pred_numeral k" for k, folded numeral_eq_Suc]
lemmas column_down_num = column_down.simps(2) [of _ "pred_numeral k" for k, folded numeral_eq_Suc]
lemmas build_columns_num =
  build_columns.simps(2) [of _ "pred_numeral k" for k, folded numeral_eq_Suc]
lemmas price_num = price.simps(2) [of _ "pred_numeral k" for k, folded numeral_eq_Suc]
lemmas price_up_nodes_num =
  price_up_nodes.simps(2) [of _ "pred_numeral k" for k, folded numeral_eq_Suc]
lemmas price_down_nodes_num =
  price_down_nodes.simps(2) [of _ "pred_numeral k" for k, folded numeral_eq_Suc]
lemmas backward_columns_num =
  backward_columns.simps(2) [of _ "pred_numeral k" for k, folded numeral_eq_Suc]

lemmas num_unfold = find_up_num find_down_num column_up_num column_down_num build_columns_num
  price_num price_up_nodes_num price_down_nodes_num backward_columns_num

text \<open>
  Running the model on a concrete tree: the continuation of a step is left alone until
  the step has returned.
\<close>

lemma seq_weak_cong: "seq m f = seq m f"
  by (rule refl)

lemma res_bind_weak_cong: "a = a' \<Longrightarrow> res_bind a f = res_bind a' f"
  by simp

lemmas build_defs = make_tree_def build_column_def build_triplet_def calc_next_mid_def
  make_next_mid_def find_next_mid_def calc_up_node_def calc_down_node_def above_floor_def
  probas_def is_pruned_def probas_prepare_def probas_finish_def
  next_nodes_probas_def forward_variance_def dividend_period_def

lemmas eval_defs = comp_defs num_unfold np_defs Let_def split_def blank_node_def
  payoff_def is_american_def new_tree_def

lemmas date_defs = day_def us_per_day_def td_days_def td_div_def timedelta_days_def
  sentinel_date_def

lemma first_four_short: "length args < 4 \<Longrightarrow> first_four args = Raise IndexError"
  by (auto simp: first_four_def arg_def)

text \<open>
  Claim C10. Called with fewer than four positional arguments, each of \<open>charm\<close>,
  \<open>speed\<close>, \<open>zomma\<close> and \<open>dividend_rho\<close> returns \<open>0.0\<close> and raises nothing,
  whatever the keyword arguments are.
\<close>

theorem few_positional_arguments_give_zero:
  "length args < 4 \<Longrightarrow>
     charm r args kwargs = Ok (Fin 0) \<and> speed r args kwargs = Ok (Fin 0)
   \<and> zomma r args kwargs = Ok (Fin 0) \<and> dividend_rho r args kwargs = Ok (Fin 0)"
  by (simp add: charm_def speed_def zomma_def dividend_rho_def first_four_short)

theorem few_positional_arguments_give_zero_witness:
  "length [VMarket mkt_ex, VInt 3, VDate (day 0)] < 4
   \<and> charm rt_default [VMarket mkt_ex, VInt 3, VDate (day 0)] Map.empty = Ok (Fin 0)
   \<and> speed rt_default [VMarket mkt_ex, VInt 3, VDate (day 0)] Map.empty = Ok (Fin 0)
   \<and> zomma rt_default [VMarket mkt_ex, VInt 3, VDate (day 0)] Map.empty = Ok (Fin 0)
   \<and> dividend_rho rt_default [VMarket mkt_ex, VInt 3, VDate (day 0)] Map.empty = Ok (Fin 0)"
  using few_positional_arguments_give_zero
          [of "[VMarket mkt_ex, VInt 3, VDate (day 0)]" rt_default Map.empty]
  by simp

text \<open>
  Claim C3. When pruning is enabled and the probability \<open>p_node\<close> of reaching a node
  is below the floor \<open>p_min\<close>, \<open>probas\<close> returns with the node's probabilities set to
  \<open>(p_up, p_mid, p_down) = (0, 1, 0)\<close> and nothing else changed, whatever the market,
  the option and the rest of the tree are.
\<close>

theorem probas_below_floor:
  assumes "pruning (pricer_parameters t)"
    and "p_min (pricer_parameters t) = Some pm"
    and "fl_lt (p_node (nodes t a)) (Fin pm)"
  shows "probas r a t =
           (Ok (), t\<lparr>nodes := (nodes t)(a := (nodes t a)\<lparr>p_up := Fin 0, p_mid := Fin 1,
                                                           p_down := Fin 0\<rparr>)\<rparr>)"
  using assms by (simp add: probas_def seq_def is_pruned_def set_probas_def upd_def)

theorem probas_below_floor_witness:
  "pruning (pricer_parameters tree_pruned_ex)
   \<and> p_min (pricer_parameters tree_pruned_ex) = Some (1 / 2)
   \<and> fl_lt (p_node (nodes tree_pruned_ex 0)) (Fin (1 / 2))
   \<and> probas rt_default 0 tree_pruned_ex =
       (Ok (), tree_pruned_ex\<lparr>nodes := (nodes tree_pruned_ex)
          (0 := (nodes tree_pruned_ex 0)\<lparr>p_up := Fin 0, p_mid := Fin 1, p_down := Fin 0\<rparr>)\<rparr>)"
proof -
  have h: "pruning (pricer_parameters tree_pruned_ex)"
    "p_min (pricer_parameters tree_pruned_ex) = Some (1 / 2)"
    "fl_lt (p_node (nodes tree_pruned_ex 0)) (Fin (1 / 2))"
    by (simp_all add: tree_pruned_ex_def)
  from probas_below_floor [OF h, of rt_default] h show ?thesis by simp
qed

text \<open>
  Claim C7, as the code has it. The constructor does not look at the floor: it
  returns a tree also when pruning is requested with \<open>p_min = None\<close>. The check is
  the first statement of \<open>make_tree\<close>: on such a tree \<open>make_tree\<close>, and with it
  \<open>backward_pricing\<close> and \<open>recursive_pricing\<close>, raises \<open>ValueError\<close> and leaves the
  tree as it was, so no node is created and no price is returned.
\<close>

theorem pruning_without_floor:
  assumes "pruning (pricer_parameters t)" and "p_min (pricer_parameters t) = None"
  shows "make_tree r t = (Raise ValueError, t)
       \<and> backward_pricing r t = (Raise ValueError, t)
       \<and> recursive_pricing r t = (Raise ValueError, t)"
  using assms by (simp add: make_tree_def backward_pricing_def recursive_pricing_def seq_def)

lemma Tree_no_floor:
  "Tree rt_default params_no_floor mkt_ex call_ex =
     Ok \<lparr>pricer_parameters = params_no_floor, market_data = mkt_ex, option_data = call_ex,
         delta_t = 1, df = Fin (exp (- (1 / 20))), alpha = Fin (exp (sqrt 3 / 5)),
         root_t = None, last_t = None, nodes = (\<lambda>_. blank_node), nxt = 0\<rparr>"
  by (simp add: Tree_def params_no_floor_def mkt_ex_def call_ex_def rt_default_def
      date_defs np_defs)

theorem pruning_without_floor_witness:
  "pruning params_no_floor \<and> p_min params_no_floor = None
   \<and> (case Tree rt_default params_no_floor mkt_ex call_ex of
        Ok t \<Rightarrow> make_tree rt_default t = (Raise ValueError, t)
              \<and> backward_pricing rt_default t = (Raise ValueError, t)
              \<and> recursive_pricing rt_default t = (Raise ValueError, t)
      | _ \<Rightarrow> False)"
proof -
  let ?t = "\<lparr>pricer_parameters = params_no_floor, market_data = mkt_ex, option_data = call_ex,
         delta_t = 1, df = Fin (exp (- (1 / 20))), alpha = Fin (exp (sqrt 3 / 5)),
         root_t = None, last_t = None, nodes = (\<lambda>_. blank_node), nxt = 0\<rparr>"
  have h: "pruning (pricer_parameters ?t)" "p_min (pricer_parameters ?t) = None"
    by (simp_all add: params_no_floor_def)
  from pruning_without_floor [OF h, of rt_default] h show ?thesis
    by (simp add: Tree_no_floor)
qed

text \<open>
  The claim as the specification states it fails: with pruning requested and no floor
  the constructor returns a tree.
\<close>

theorem constructor_accepts_missing_floor:
  "pruning params_no_floor \<and> p_min params_no_floor = None
   \<and> Tree rt_default params_no_floor mkt_ex call_ex =
       Ok \<lparr>pricer_parameters = params_no_floor, market_data = mkt_ex, option_data = call_ex,
           delta_t = 1, df = Fin (exp (- (1 / 20))), alpha = Fin (exp (sqrt 3 / 5)),
           root_t = None, last_t = None, nodes = (\<lambda>_. blank_node), nxt = 0\<rparr>"
  by (simp add: Tree_no_floor) (simp add: params_no_floor_def)

subsection \<open>The forward price and the variance\<close>

lemma td_div_nonneg: "0 \<le> a \<Longrightarrow> 0 < b \<Longrightarrow> 0 \<le> td_div a b"
  by (auto simp: td_div_def Let_def pos_imp_zdiv_nonneg_iff)

lemma step_tol_nonneg: "0 \<le> step_tol t"
  unfolding step_tol_def by (intro td_div_nonneg) (auto simp: us_per_day_def)

lemma dividend_period_iff: "dividend_period t a = ex_date_in_shifted_step t a"
  using step_tol_nonneg [of t]
  unfolding dividend_period_def in_dividend_period_def ex_date_in_shifted_step_def
    step_tol_def Let_def
  by auto

text \<open>
  Claim C5, as the code has it. For a node with a finite price \<open>S\<close>,
  \<open>forward_variance\<close> returns the forward price \<open>S * exp(rate * deltaT)\<close> less the
  dividend exactly when the ex-dividend date lies in the step moved later by the
  tolerance of \<open>dividend_period\<close>, that is in
  \<open>[date + max(1 microsecond, tol), date + deltaT + tol)\<close> with
  \<open>tol = (1 day / max(1, nb_steps)) / 1000\<close>, and the variance
  \<open>S^2 * exp(2 * rate * deltaT) * (exp(vol^2 * deltaT) - 1)\<close> in every case.
\<close>

theorem forward_variance_shifted_step:
  assumes "und_price (nodes t a) = Fin S"
  shows "forward_variance r t a =
    Ok (Fin (S * exp (rate (market_data t) * delta_t t)
             - (if ex_date_in_shifted_step t a then dividend (market_data t) else 0)),
        Fin (S\<^sup>2 * exp (2 * rate (market_data t) * delta_t t)
              * (exp ((vol (market_data t))\<^sup>2 * delta_t t) - 1)))"
  using assms
  by (simp add: forward_variance_def Let_def np_defs dividend_period_iff)

lemma step_tol_tree_two: "step_tol (tree_two m al mid) = 86400000"
  by (simp add: step_tol_def tree_two_def date_defs Let_def)

lemma next_date_tree_two: "timedelta_days (delta_t (tree_two m al mid) * 365) = 31536000000000"
  by (simp add: tree_two_def date_defs round_half_even_def Let_def)

theorem forward_variance_shifted_step_witness:
  "und_price (nodes (tree_two (mkt_div (day 1)) (Fin (exp (sqrt 3 / 5))) (Fin 100)) 0) = Fin 100
   \<and> forward_variance rt_default (tree_two (mkt_div (day 1)) (Fin (exp (sqrt 3 / 5))) (Fin 100)) 0 =
       Ok (Fin (100 * exp (1 / 20) - 3), Fin (100\<^sup>2 * exp (1 / 10) * (exp (1 / 25) - 1)))"
proof -
  let ?t = "tree_two (mkt_div (day 1)) (Fin (exp (sqrt 3 / 5))) (Fin 100)"
  have h: "und_price (nodes ?t 0) = Fin 100" by (simp add: tree_two_def)
  have "ex_date_in_shifted_step ?t 0"
    by (simp add: ex_date_in_shifted_step_def step_tol_tree_two next_date_tree_two)
       (simp add: tree_two_def mkt_div_def blank_node_def date_defs)
  with forward_variance_shifted_step [OF h, of rt_default] h show ?thesis
    by (simp add: tree_two_def mkt_div_def power2_eq_square)
qed

text \<open>
  The claim as the specification states it fails one second after the date of the
  node: the ex-dividend date is inside \<open>(date, date + deltaT]\<close>, the dividend is
  \<open>3\<close>, and the forward price returned is \<open>100 * exp(0.05)\<close>, nothing subtracted.
\<close>

theorem dividend_inside_step_not_subtracted:
  "ex_date_in_step (tree_two (mkt_div 1000000) (Fin (exp (sqrt 3 / 5))) (Fin 100)) 0
   \<and> dividend (market_data (tree_two (mkt_div 1000000) (Fin (exp (sqrt 3 / 5))) (Fin 100))) = 3
   \<and> forward_variance rt_default (tree_two (mkt_div 1000000) (Fin (exp (sqrt 3 / 5))) (Fin 100)) 0 =
       Ok (Fin (100 * exp (1 / 20)), Fin (100\<^sup>2 * exp (1 / 10) * (exp (1 / 25) - 1)))"
proof -
  let ?t = "tree_two (mkt_div 1000000) (Fin (exp (sqrt 3 / 5))) (Fin 100)"
  have a: "ex_date_in_step ?t 0"
    by (simp add: ex_date_in_step_def next_date_tree_two)
       (simp add: tree_two_def mkt_div_def blank_node_def date_defs)
  have b: "\<not> dividend_period ?t 0"
    by (simp add: dividend_period_iff ex_date_in_shifted_step_def step_tol_tree_two
        next_date_tree_two)
       (simp add: tree_two_def mkt_div_def blank_node_def date_defs)
  have c: "forward_variance rt_default ?t 0 =
       Ok (Fin (100 * exp (1 / 20)), Fin (100\<^sup>2 * exp (1 / 10) * (exp (1 / 25) - 1)))"
    by (simp add: forward_variance_def b Let_def)
       (simp add: tree_two_def mkt_div_def np_defs power2_eq_square)
  from a c show ?thesis by (simp add: tree_two_def mkt_div_def)
qed

subsection \<open>The choice of the formula and the handler of the try statement\<close>

lemma bind_div:
  "res_bind A (\<lambda>x. res_bind B (\<lambda>y. res_bind (np_div r (Ok x) (Ok y)) k)) =
   res_bind (np_div r A B) k"
  by (cases A; cases B) (auto simp: np_div_def)

lemma probas_formulas_simplified:
  "\<not> dividend_period t a
     \<or> (np_sub r (Ok F) (Ok sm) = Ok d \<and> fl_lt (fl_abs d) (Fin CLOSE_EPS)) \<Longrightarrow>
   probas_formulas r t a F V sm =
     simplified_formula r (vol (market_data t)) (delta_t t) (alpha t)"
  unfolding probas_formulas_def simplified_formula_def Let_def
  by (auto simp: bind_div)






lemma is_pruned_tree_two: "is_pruned (tree_two m al mid) a = Ok False"
  by (simp add: is_pruned_def tree_two_def)

lemma dividend_period_flat: "\<not> dividend_period (tree_two mkt_flat al mid) 0"
  by (simp add: dividend_period_def in_dividend_period_def tree_two_def mkt_flat_def
      blank_node_def date_defs round_half_even_def Let_def)


lemma probas_prepare_flat:
  "probas_prepare r 0 (tree_two mkt_flat (Fin 1) (Fin (100 * exp (1 / 20)))) =
   (Ok (Fin (100 * exp (1 / 20)), Fin 0, Fin (100 * exp (1 / 20))),
    tree_two mkt_flat (Fin 1) (Fin (100 * exp (1 / 20))))"
  apply (simp add: probas_prepare_def comp_defs forward_variance_def dividend_period_flat Let_def)
  apply (simp add: tree_two_def mkt_flat_def np_defs comp_defs)
  done


text \<open>
  Claim C6. Take a node that is not pruned. Whatever exception the body of the
  \<open>try\<close> statement of \<open>probas\<close> raises while it evaluates the formulas, \<open>probas\<close>
  returns normally, with the probabilities of the node set to \<open>(0, 1, 0)\<close> and
  the tree otherwise as it was when the body was entered.
\<close>

theorem probas_exception_recovered:
  assumes "is_pruned t a = Ok False"
    and "probas_prepare r a t = (Ok (F, V, sm), t1)"
    and "probas_formulas r t1 a F V sm = Raise e"
  shows "probas r a t =
    (Ok (), t1\<lparr>nodes := (nodes t1)(a := (nodes t1 a)\<lparr>p_up := Fin 0, p_mid := Fin 1,
                                                        p_down := Fin 0\<rparr>)\<rparr>)"
  using assms by (simp add: probas_def seq_def probas_finish_def set_probas_def upd_def)

text \<open>
  The witness: a market without volatility, so that \<open>alpha = 1\<close>, under numpy's
  raising error state. The simplified formula divides zero by zero, numpy raises
  \<open>FloatingPointError\<close>, and the node gets \<open>(0, 1, 0)\<close>.
\<close>

theorem probas_exception_recovered_witness:
  "is_pruned (tree_two mkt_flat (Fin 1) (Fin (100 * exp (1 / 20)))) 0 = Ok False
 \<and> probas_prepare rt_raise 0 (tree_two mkt_flat (Fin 1) (Fin (100 * exp (1 / 20)))) =
   (Ok (Fin (100 * exp (1 / 20)), Fin 0, Fin (100 * exp (1 / 20))),
    tree_two mkt_flat (Fin 1) (Fin (100 * exp (1 / 20))))
 \<and> probas_formulas rt_raise (tree_two mkt_flat (Fin 1) (Fin (100 * exp (1 / 20)))) 0
       (Fin (100 * exp (1 / 20))) (Fin 0) (Fin (100 * exp (1 / 20))) = Raise FloatingPointError
 \<and> fst (probas rt_raise 0 (tree_two mkt_flat (Fin 1) (Fin (100 * exp (1 / 20))))) = Ok ()
 \<and> p_up (nodes (snd (probas rt_raise 0 (tree_two mkt_flat (Fin 1) (Fin (100 * exp (1 / 20)))))) 0)
     = Fin 0
 \<and> p_mid (nodes (snd (probas rt_raise 0 (tree_two mkt_flat (Fin 1) (Fin (100 * exp (1 / 20)))))) 0)
     = Fin 1
 \<and> p_down (nodes (snd (probas rt_raise 0 (tree_two mkt_flat (Fin 1) (Fin (100 * exp (1 / 20)))))) 0)
     = Fin 0"
proof -
  let ?t = "tree_two mkt_flat (Fin 1) (Fin (100 * exp (1 / 20)))"
  have c: "probas_formulas rt_raise ?t 0 (Fin (100 * exp (1 / 20))) (Fin 0)
             (Fin (100 * exp (1 / 20))) = Raise FloatingPointError"
    apply (simp add: probas_formulas_def dividend_period_flat Let_def)
    apply (simp add: tree_two_def mkt_flat_def np_defs rt_raise_def)
    done
  from probas_exception_recovered [OF is_pruned_tree_two probas_prepare_flat c]
    is_pruned_tree_two probas_prepare_flat c
  show ?thesis by simp
qed

subsection \<open>The checks of the probabilities\<close>

text \<open>
  On finite values the checks of \<open>probas\<close> enforce the bounds: a triple that passes
  sums to one within \<open>1e-10\<close> and each of its members is in \<open>[0, 1]\<close> within
  \<open>1e-10\<close>. A comparison with a NaN is false, so three NaN pass every check.
\<close>

lemma probas_check_finite:
  assumes "probas_check r (Fin pu, Fin pm, Fin pd) = Ok ()"
  shows "\<bar>pu + pm + pd - 1\<bar> \<le> 1 / 10 ^ 10"
    and "- (1 / 10 ^ 10) \<le> pu \<and> pu \<le> 1 + 1 / 10 ^ 10"
    and "- (1 / 10 ^ 10) \<le> pm \<and> pm \<le> 1 + 1 / 10 ^ 10"
    and "- (1 / 10 ^ 10) \<le> pd \<and> pd \<le> 1 + 1 / 10 ^ 10"
  using assms by (auto simp: probas_check_def np_defs PROB_TOL_def split: if_splits)

lemma probas_check_NaN: "probas_check r (NaN, NaN, NaN) = Ok ()"
  by (simp add: probas_check_def np_defs)


text \<open>
  The simplified formula gives probabilities in \<open>[0, 1]\<close> when
  \<open>0 < sigma^2 * deltaT \<le> 1/2\<close>: with \<open>s = sigma * sqrt(3 * deltaT)\<close> the sum
  \<open>pUp + pDown\<close> is \<open>(exp(s^2/3) - 1) * exp(s) / (exp(s) - 1)^2\<close>, which is at most one.
\<close>

lemma exp_key:
  fixes s :: real
  assumes "0 < s" "s\<^sup>2 \<le> 3 / 2"
  shows "(exp (s\<^sup>2 / 3) - 1) * exp s \<le> (exp s - 1)\<^sup>2"
proof -
  define v where "v = s\<^sup>2 / 3"
  have v: "0 \<le> v" "v \<le> 1 / 2" using assms by (auto simp: v_def)
  have "exp v \<le> 1 + v + v\<^sup>2" using exp_bound [of v] v by simp
  moreover have "v * v \<le> v * (1 / 2)" using v by (intro mult_left_mono) auto
  ultimately have "exp v - 1 \<le> 3 * v / 2" by (simp add: power2_eq_square)
  then have a: "exp v - 1 \<le> s\<^sup>2 / 2" by (simp add: v_def)
  have "1 + s + s\<^sup>2 / 2 \<le> exp s" using exp_lower_Taylor_quadratic [of s] assms by simp
  moreover have "1 + (- s) \<le> exp (- s)" by (rule exp_ge_add_one_self)
  ultimately have b: "s\<^sup>2 / 2 \<le> exp s - 2 + exp (- s)" by simp
  have "(exp v - 1) * exp s \<le> (exp s - 2 + exp (- s)) * exp s"
    using a b by (intro mult_right_mono) auto
  also have "\<dots> = exp s * exp s - 2 * exp s + exp (- s) * exp s"
    by (simp add: algebra_simps)
  also have "exp (- s) * exp s = 1" by (simp add: exp_minus field_simps)
  finally show ?thesis unfolding v_def by (simp add: power2_eq_square algebra_simps)
qed

lemma probs_bounds:
  fixes al E :: real
  assumes "1 < al" "0 \<le> E" "E * al \<le> (al - 1)\<^sup>2"
  defines "pd \<equiv> E / ((1 - al) * (1 / al\<^sup>2 - 1))"
  shows "0 \<le> pd" "0 \<le> pd / al" "pd / al + pd \<le> 1"
proof -
  have den: "(1 - al) * (1 / al\<^sup>2 - 1) = (al - 1)\<^sup>2 * (al + 1) / al\<^sup>2"
    using assms(1) by (simp add: field_simps power2_eq_square)
  have pos: "0 < (al - 1)\<^sup>2 * (al + 1) / al\<^sup>2" using assms(1) by simp
  show a: "0 \<le> pd" unfolding pd_def den using pos assms(2) by (rule_tac divide_nonneg_pos)
  then show "0 \<le> pd / al" using assms(1) by simp
  define A where "A = (al - 1)\<^sup>2"
  define B where "B = al + 1"
  have nz: "al \<noteq> 0" "A \<noteq> 0" "B \<noteq> 0" using assms(1) by (auto simp: A_def B_def)
  have pdv: "pd = E * al\<^sup>2 / (A * B)" unfolding pd_def den A_def B_def by simp
  have "pd / al + pd = pd * (B / al)" using nz(1) by (simp add: B_def field_simps)
  also have "\<dots> = E * al / A" unfolding pdv using nz by (simp add: power2_eq_square)
  also have "\<dots> = E * al / (al - 1)\<^sup>2" by (simp add: A_def)
  also have "\<dots> \<le> 1" using assms(1,3) by (simp add: divide_le_eq)
  finally show "pd / al + pd \<le> 1" .
qed

lemma simple_probs_in_range:
  fixes sigma dt :: real
  assumes "0 < sigma" "0 < dt" "sigma\<^sup>2 * dt \<le> 1 / 2"
  shows "0 \<le> pd_simple sigma dt (al_of sigma dt)" "0 \<le> pu_simple sigma dt (al_of sigma dt)"
    "pu_simple sigma dt (al_of sigma dt) + pd_simple sigma dt (al_of sigma dt) \<le> 1"
    "1 < al_of sigma dt"
proof -
  define s where "s = sigma * sqrt (3 * dt)"
  have s: "0 < s" using assms(1,2) by (simp add: s_def)
  have s2: "s\<^sup>2 = 3 * (sigma\<^sup>2 * dt)" using assms(2) by (simp add: s_def power_mult_distrib)
  then have s3: "s\<^sup>2 \<le> 3 / 2" "s\<^sup>2 / 3 = sigma\<^sup>2 * dt" using assms(3)
    by (simp_all add: mult.commute)
  show al1: "1 < al_of sigma dt" using s by (simp add: al_of_def s_def [symmetric])
  have E0: "0 \<le> exp (sigma\<^sup>2 * dt) - 1" using assms(1,2) by simp
  have key: "(exp (sigma\<^sup>2 * dt) - 1) * al_of sigma dt \<le> (al_of sigma dt - 1)\<^sup>2"
    using exp_key [OF s s3(1)] s3(2) by (simp add: al_of_def s_def)
  show "0 \<le> pd_simple sigma dt (al_of sigma dt)" "0 \<le> pu_simple sigma dt (al_of sigma dt)"
    "pu_simple sigma dt (al_of sigma dt) + pd_simple sigma dt (al_of sigma dt) \<le> 1"
    using probs_bounds [OF al1 E0 key] by (simp_all add: pd_simple_def pu_simple_def)
qed

lemma simplified_formula_finite:
  assumes "1 < al"
  shows "simplified_formula r sigma dt (Fin al) =
     Ok (Fin (pu_simple sigma dt al), Fin (pm_simple sigma dt al), Fin (pd_simple sigma dt al))"
proof -
  have "al\<^sup>2 \<noteq> 1" using assms by (smt (verit) one_less_power pos2)
  then have "(1 - al) * (1 / al\<^sup>2 - 1) \<noteq> 0" using assms by simp
  then show ?thesis using assms
    by (simp add: simplified_formula_def np_defs pd_simple_def pu_simple_def pm_simple_def)
qed

lemma probas_check_simple:
  assumes "0 \<le> pd_simple sigma dt al" "0 \<le> pu_simple sigma dt al"
    "pu_simple sigma dt al + pd_simple sigma dt al \<le> 1"
  shows "probas_check r (Fin (pu_simple sigma dt al), Fin (pm_simple sigma dt al),
           Fin (pd_simple sigma dt al)) = Ok ()"
  using assms by (simp add: probas_check_def np_defs pm_simple_def PROB_TOL_def)

lemma probas_formulas_no_dividend:
  "\<not> dividend_period t a \<Longrightarrow>
   probas_formulas r t a F V sm = simplified_formula r (vol (market_data t)) (delta_t t) (alpha t)"
  by (rule probas_formulas_simplified) simp

lemma simple_eval:
  assumes "0 < sigma" "0 < dt" "sigma\<^sup>2 * dt \<le> 1 / 2"
  shows "simplified_formula r sigma dt (Fin (al_of sigma dt)) =
     Ok (Fin (pu_simple sigma dt (al_of sigma dt)), Fin (pm_simple sigma dt (al_of sigma dt)),
         Fin (pd_simple sigma dt (al_of sigma dt)))"
    and "probas_check r (Fin (pu_simple sigma dt (al_of sigma dt)),
           Fin (pm_simple sigma dt (al_of sigma dt)), Fin (pd_simple sigma dt (al_of sigma dt))) = Ok ()"
  using simple_probs_in_range [OF assms] simplified_formula_finite probas_check_simple
  by simp_all

lemma al_of_pos: "0 < al_of sigma dt" "al_of sigma dt \<noteq> 0"
  by (simp_all add: al_of_def)

subsection \<open>The formula that runs on a one-step tree\<close>










subsection \<open>Runs of the model on one-step trees\<close>

lemma idp_sentinel: "in_dividend_period sentinel_date 0 1 1 = False"
  "in_dividend_period sentinel_date 0 0 1 = False"
  by (simp_all add: in_dividend_period_def date_defs round_half_even_def Let_def)


lemma timedelta_days_eval: "timedelta_days 365 = 31536000000000" "timedelta_days 0 = 0"
  by (simp_all add: date_defs round_half_even_def Let_def)


lemmas run_defs = rt_default_def rt_shallow_def build_defs eval_defs probas_formulas_def
  CLOSE_EPS_def
  recursive_pricing_def backward_pricing_def day_def us_per_day_def timedelta_days_eval


lemmas run_defs2 = rt_default_def rt_shallow_def build_defs eval_defs
  probas_formulas_no_dividend simple_eval al_of_pos power2_eq_square
  recursive_pricing_def backward_pricing_def day_def us_per_day_def timedelta_days_eval


lemma Tree_flat:
  "Tree rt_default params_one_step mkt_flat call_ex =
     Ok (new_tree params_one_step mkt_flat call_ex 1 (Fin (exp (- (1 / 20)))) (Fin 1))"
  by (simp add: Tree_def new_tree_def params_one_step_def mkt_flat_def call_ex_def rt_default_def
      np_defs date_defs)


text \<open>
  Claim C2 fails on the code for a market without volatility, which \<open>Market\<close>
  accepts. Then \<open>alpha = 1\<close>, the simplified formula divides zero by zero, numpy
  returns NaN under its default error state, and the checks let the three NaN pass:
  \<open>make_tree\<close> returns normally and the root holds \<open>(NaN, NaN, NaN)\<close>, which
  neither sums to one nor lies in \<open>[0, 1]\<close>, and no error is raised.
\<close>

theorem flat_market_probabilities_are_nan:
  "Tree rt_default params_one_step mkt_flat call_ex =
     Ok (new_tree params_one_step mkt_flat call_ex 1 (Fin (exp (- (1 / 20)))) (Fin 1))
   \<and> fst (make_tree rt_default
           (new_tree params_one_step mkt_flat call_ex 1 (Fin (exp (- (1 / 20)))) (Fin 1))) = Ok ()
   \<and> p_up (nodes (snd (make_tree rt_default
           (new_tree params_one_step mkt_flat call_ex 1 (Fin (exp (- (1 / 20)))) (Fin 1)))) 0) = NaN
   \<and> p_mid (nodes (snd (make_tree rt_default
           (new_tree params_one_step mkt_flat call_ex 1 (Fin (exp (- (1 / 20)))) (Fin 1)))) 0) = NaN
   \<and> p_down (nodes (snd (make_tree rt_default
           (new_tree params_one_step mkt_flat call_ex 1 (Fin (exp (- (1 / 20)))) (Fin 1)))) 0) = NaN"
  by (simp add: Tree_flat)
     (simp add: params_one_step_def mkt_flat_def run_defs idp_sentinel probas_check_NaN
      cong: seq_weak_cong res_bind_weak_cong)


lemma Tree_half_day:
  "Tree rt_default params_one_step mkt_ex call_half_day =
     Ok (new_tree params_one_step mkt_ex call_half_day 0 (Fin 1) (Fin 1))"
  by (simp add: Tree_def new_tree_def params_one_step_def mkt_ex_def call_half_day_def
      rt_default_def np_defs date_defs)


text \<open>
  Claim C1 fails on the code when the maturity is less than a day after the valuation
  date. The time step is then zero and \<open>alpha = 1\<close>, the probabilities of the root
  are NaN, and recursive pricing returns NaN at the root. Backward pricing stops its
  walk at the terminal trunk node, whose date is not later than the valuation date,
  and returns the payoff \<open>10\<close> of that node.
\<close>

theorem half_day_prices_differ:
  "pricing_date params_one_step < maturity call_half_day
   \<and> Tree rt_default params_one_step mkt_ex call_half_day =
       Ok (new_tree params_one_step mkt_ex call_half_day 0 (Fin 1) (Fin 1))
   \<and> fst (recursive_pricing rt_default
           (new_tree params_one_step mkt_ex call_half_day 0 (Fin 1) (Fin 1))) = Ok (Some NaN)
   \<and> fst (backward_pricing rt_default
           (new_tree params_one_step mkt_ex call_half_day 0 (Fin 1) (Fin 1))) = Ok (Some (Fin 10))"
  by (simp add: Tree_half_day)
     (simp add: params_one_step_def mkt_ex_def call_half_day_def run_defs idp_sentinel
      probas_check_NaN cong: seq_weak_cong res_bind_weak_cong)



lemma Tree_ex:
  "Tree rt_shallow params_one_step mkt_ex call_ex =
     Ok (new_tree params_one_step mkt_ex call_ex 1 (Fin (exp (- (1 / 20)))) (Fin (al_of (1 / 5) 1)))"
  by (simp add: Tree_def new_tree_def params_one_step_def mkt_ex_def call_ex_def
      rt_shallow_def np_defs date_defs al_of_def)


text \<open>
  Claim C8 fails on the code when the recursion is too deep: \<open>recursive_pricing\<close>
  handles the \<open>RecursionError\<close> itself and returns \<open>None\<close>, so the caller gets
  nothing to catch. Here the interpreter has room for one call of \<open>price\<close> and
  the tree has one step.
\<close>

theorem recursion_error_is_swallowed:
  "Tree rt_shallow params_one_step mkt_ex call_ex =
     Ok (new_tree params_one_step mkt_ex call_ex 1 (Fin (exp (- (1 / 20)))) (Fin (al_of (1 / 5) 1)))
   \<and> fst (recursive_pricing rt_shallow
          (new_tree params_one_step mkt_ex call_ex 1 (Fin (exp (- (1 / 20)))) (Fin (al_of (1 / 5) 1))))
       = Ok None"
  by (simp add: Tree_ex)
     (simp add: params_one_step_def mkt_ex_def run_defs2 idp_sentinel
      cong: seq_weak_cong res_bind_weak_cong)


text \<open>No call of \<open>recursive_pricing\<close> ends in a \<open>RecursionError\<close>.\<close>

lemma recursive_pricing_no_RecursionError:
  "fst (recursive_pricing r t) \<noteq> Raise RecursionError"
  by (auto simp: recursive_pricing_def split: prod.splits res.splits)

subsection \<open>The numerical Greeks\<close>

text \<open>
  \<open>Node.price\<close> stores the price it returns, so \<open>backward_pricing\<close> never returns
  \<open>None\<close>, and the price an estimator gets is a number whenever the pricing returns.
\<close>

lemma price_memo:
  "price r d a t = (Ok p, t') \<Longrightarrow> opt_price (nodes t' a) = Some p"
  by (cases d)
     (auto simp: seq_def ret_def upd_def Let_def
           split: option.splits prod.splits res.splits if_splits)

lemma backward_pricing_not_None: "fst (backward_pricing r t) \<noteq> Ok None"
  by (auto simp: backward_pricing_def seq_def dest: price_memo
           split: option.splits prod.splits res.splits if_splits)

lemma greeks_price_backward:
  obtains (ok) x where "greeks_price r m opt d n ''backward'' = Ok (Some x)"
      "pruned_backward_price r opt n d m = Ok x"
  | (raise) e where "greeks_price r m opt d n ''backward'' = Raise e"
      "pruned_backward_price r opt n d m = Raise e"
  | (noreturn) "greeks_price r m opt d n ''backward'' = NoReturn"
      "pruned_backward_price r opt n d m = NoReturn"
proof -
  have eq: "pruned_backward_price r opt n d m = num (greeks_price r m opt d n ''backward'')"
    by (simp add: pruned_backward_price_def greeks_price_def)
  have nn: "greeks_price r m opt d n ''backward'' \<noteq> Ok None"
    using backward_pricing_not_None
    by (cases "Tree r \<lparr>pricing_date = d, nb_steps = n, pruning = True,
                             p_min = Some (1 / 10 ^ 7)\<rparr> m opt")
       (auto simp: greeks_price_def)
  show ?thesis
  proof (cases "greeks_price r m opt d n ''backward''")
    case (Ok v)
    with nn obtain x where "v = Some x" by (cases v) auto
    with Ok show ?thesis using ok [of x] by (simp add: eq num_def)
  next
    case (Raise e) then show ?thesis using raise [of e] by (simp add: eq num_def)
  next
    case NoReturn then show ?thesis using noreturn by (simp add: eq num_def)
  qed
qed

lemma bump_ok:
  "0 \<le> s \<Longrightarrow> 0 \<le> v \<Longrightarrow>
   bump_market mkt s rv v d =
     Ok \<lparr>s0 = s, rate = rv, vol = v, dividend = d,
         ex_div_date = (if d \<noteq> 0 then ex_div_date mkt else sentinel_date)\<rparr>"
  by (simp add: bump_market_def Market_def)

lemma two_prices:
  "res_bind (greeks_price r m1 opt d1 n ''backward'') (\<lambda>pu.
     res_bind (greeks_price r m2 opt d2 n ''backward'') (\<lambda>pd'.
       f (num (Ok pu)) (num (Ok pd')))) =
   res_bind (pruned_backward_price r opt n d1 m1) (\<lambda>a.
     res_bind (pruned_backward_price r opt n d2 m2) (\<lambda>b. f (Ok a) (Ok b)))"
  by (rule greeks_price_backward [of r m1 opt d1 n];
      rule greeks_price_backward [of r m2 opt d2 n]) (simp_all add: num_def)

lemma three_prices:
  "res_bind (greeks_price r m1 opt d n ''backward'') (\<lambda>pu.
     res_bind (greeks_price r m2 opt d n ''backward'') (\<lambda>pm.
     res_bind (greeks_price r m3 opt d n ''backward'') (\<lambda>pd'.
       f (num (Ok pu)) (num (Ok pm)) (num (Ok pd'))))) =
   res_bind (pruned_backward_price r opt n d m1) (\<lambda>a.
     res_bind (pruned_backward_price r opt n d m2) (\<lambda>b.
     res_bind (pruned_backward_price r opt n d m3) (\<lambda>c. f (Ok a) (Ok b) (Ok c))))"
  by (rule greeks_price_backward [of r m1 opt d n];
      rule greeks_price_backward [of r m2 opt d n];
      rule greeks_price_backward [of r m3 opt d n]) (simp_all add: num_def)

lemma four_prices:
  "res_bind (greeks_price r m1 opt d n ''backward'') (\<lambda>p1.
     res_bind (greeks_price r m2 opt d n ''backward'') (\<lambda>p2.
     res_bind (greeks_price r m3 opt d n ''backward'') (\<lambda>p3.
     res_bind (greeks_price r m4 opt d n ''backward'') (\<lambda>p4.
       f (num (Ok p1)) (num (Ok p2)) (num (Ok p3)) (num (Ok p4)))))) =
   res_bind (pruned_backward_price r opt n d m1) (\<lambda>a.
     res_bind (pruned_backward_price r opt n d m2) (\<lambda>b.
     res_bind (pruned_backward_price r opt n d m3) (\<lambda>c.
     res_bind (pruned_backward_price r opt n d m4) (\<lambda>e. f (Ok a) (Ok b) (Ok c) (Ok e)))))"
  by (rule greeks_price_backward [of r m1 opt d n];
      rule greeks_price_backward [of r m2 opt d n];
      rule greeks_price_backward [of r m3 opt d n];
      rule greeks_price_backward [of r m4 opt d n]) (simp_all add: num_def)


lemma timedelta_days_int: "timedelta_days (real_of_int k) = k * us_per_day"
proof -
  have "real_of_int k * real_of_int us_per_day = real_of_int (k * us_per_day)" by simp
  then show ?thesis unfolding timedelta_days_def round_half_even_def
    by (simp only: floor_of_int Let_def) simp
qed

lemma bump_valid:
  assumes "dividend mkt = 0 \<longrightarrow> ex_div_date mkt = sentinel_date" "0 \<le> s" "0 \<le> v"
  shows "bump_market mkt s rv v (dividend mkt) = Ok (mkt\<lparr>s0 := s, rate := rv, vol := v\<rparr>)"
  using assms by (cases mkt) (auto simp: bump_market_def Market_def)

lemma bump_dividend:
  assumes "0 \<le> s0 mkt" "0 \<le> vol mkt"
  shows "bump_market mkt (s0 mkt) (rate mkt) (vol mkt) d =
     Ok (mkt\<lparr>dividend := d,
             ex_div_date := if d \<noteq> 0 then ex_div_date mkt else sentinel_date\<rparr>)"
  using assms by (cases mkt) (auto simp: bump_market_def Market_def)

lemma rel_bump_nonneg:
  fixes x h :: real
  assumes "0 \<le> x" "\<bar>h\<bar> \<le> 1"
  shows "0 \<le> x * (1 + h)" "0 \<le> x * (1 - h)"
  using assms by (auto intro!: mult_nonneg_nonneg)

lemma delta_stencil:
  assumes "0 \<le> s0 mkt" "0 \<le> vol mkt" "dividend mkt = 0 \<longrightarrow> ex_div_date mkt = sentinel_date"
    and "\<bar>h\<bar> \<le> 1"
  shows "delta r mkt n pd opt h =
     res_bind (pruned_backward_price r opt n pd (mkt\<lparr>s0 := s0 mkt * (1 + h)\<rparr>)) (\<lambda>up.
     res_bind (pruned_backward_price r opt n pd (mkt\<lparr>s0 := s0 mkt * (1 - h)\<rparr>)) (\<lambda>down.
     central_first r up down (s0 mkt * h)))"
proof -
  have e: "s0 mkt * 2 * h = 2 * (s0 mkt * h)" by simp
  show ?thesis
    using rel_bump_nonneg [OF assms(1,4)] assms(2,3)
    by (simp add: delta_def Let_def bump_valid central_first_def e
        two_prices [where f = "\<lambda>a b. np_div r (np_sub r a b) (Ok (Fin D))" for D])
qed

lemma gamma_stencil:
  assumes "0 \<le> s0 mkt" "0 \<le> vol mkt" "dividend mkt = 0 \<longrightarrow> ex_div_date mkt = sentinel_date"
    and "\<bar>h\<bar> \<le> 1"
  shows "gamma r mkt n pd opt h =
     res_bind (pruned_backward_price r opt n pd (mkt\<lparr>s0 := s0 mkt * (1 + h)\<rparr>)) (\<lambda>up.
     res_bind (pruned_backward_price r opt n pd mkt) (\<lambda>mid.
     res_bind (pruned_backward_price r opt n pd (mkt\<lparr>s0 := s0 mkt * (1 - h)\<rparr>)) (\<lambda>down.
     central_second r up mid down (s0 mkt * h))))"
  using rel_bump_nonneg [OF assms(1,4)] assms(2,3)
  by (simp add: gamma_def Let_def bump_valid central_second_def
      three_prices [where f = "\<lambda>a b c. np_div r (np_add r (np_sub r a (np_mul r (Ok (Fin 2)) b)) c)
         (Ok (Fin D))" for D])

lemma vega_stencil:
  assumes "0 \<le> s0 mkt" "0 \<le> vol mkt" "dividend mkt = 0 \<longrightarrow> ex_div_date mkt = sentinel_date"
    and "\<bar>h\<bar> \<le> 1"
  shows "vega r mkt n pd opt h =
     res_bind (pruned_backward_price r opt n pd (mkt\<lparr>vol := vol mkt * (1 + h)\<rparr>)) (\<lambda>up.
     res_bind (pruned_backward_price r opt n pd (mkt\<lparr>vol := vol mkt * (1 - h)\<rparr>)) (\<lambda>down.
     central_first r up down (vol mkt * h)))"
proof -
  have e: "2 * vol mkt * h = 2 * (vol mkt * h)" by simp
  show ?thesis
    using rel_bump_nonneg [OF assms(2,4)] assms(1,3)
    by (simp add: vega_def Let_def bump_valid central_first_def e
        two_prices [where f = "\<lambda>a b. np_div r (np_sub r a b) (Ok (Fin D))" for D])
qed

lemma rho_stencil:
  assumes "0 \<le> s0 mkt" "0 \<le> vol mkt" "dividend mkt = 0 \<longrightarrow> ex_div_date mkt = sentinel_date"
  shows "rho r mkt n pd opt h =
     res_bind (pruned_backward_price r opt n pd (mkt\<lparr>rate := rate mkt + h\<rparr>)) (\<lambda>up.
     res_bind (pruned_backward_price r opt n pd (mkt\<lparr>rate := rate mkt - h\<rparr>)) (\<lambda>down.
     central_first r up down h))"
  using assms
  by (simp add: rho_def Let_def bump_valid central_first_def
      two_prices [where f = "\<lambda>a b. np_div r (np_sub r a b) (Ok (Fin D))" for D])

lemma vanna_stencil:
  assumes "0 \<le> s0 mkt" "0 \<le> vol mkt" "dividend mkt = 0 \<longrightarrow> ex_div_date mkt = sentinel_date"
    and "\<bar>h_s\<bar> \<le> 1" "\<bar>h_sigma\<bar> \<le> 1"
  shows "vanna r mkt n pd opt h_s h_sigma =
     res_bind (pruned_backward_price r opt n pd
                (mkt\<lparr>s0 := s0 mkt * (1 + h_s), vol := vol mkt * (1 + h_sigma)\<rparr>)) (\<lambda>p_pp.
     res_bind (pruned_backward_price r opt n pd
                (mkt\<lparr>s0 := s0 mkt * (1 + h_s), vol := vol mkt * (1 - h_sigma)\<rparr>)) (\<lambda>p_pm.
     res_bind (pruned_backward_price r opt n pd
                (mkt\<lparr>s0 := s0 mkt * (1 - h_s), vol := vol mkt * (1 + h_sigma)\<rparr>)) (\<lambda>p_mp.
     res_bind (pruned_backward_price r opt n pd
                (mkt\<lparr>s0 := s0 mkt * (1 - h_s), vol := vol mkt * (1 - h_sigma)\<rparr>)) (\<lambda>p_mm.
     cross_stencil r p_pp p_pm p_mp p_mm (s0 mkt * h_s) (vol mkt * h_sigma)))))"
proof -
  have e: "4 * s0 mkt * h_s * vol mkt * h_sigma = 4 * (s0 mkt * h_s) * (vol mkt * h_sigma)"
    by simp
  show ?thesis
    using rel_bump_nonneg [OF assms(1,4)] rel_bump_nonneg [OF assms(2,5)] assms(3)
    by (simp add: vanna_def Let_def bump_valid cross_stencil_def e
        four_prices [where f = "\<lambda>a b c d. np_div r (np_add r (np_sub r (np_sub r a b) c) d)
           (Ok (Fin D))" for D])
qed


lemma vomma_stencil:
  assumes "0 \<le> s0 mkt" "0 \<le> vol mkt" "dividend mkt = 0 \<longrightarrow> ex_div_date mkt = sentinel_date"
    and "\<bar>h\<bar> \<le> 1"
  shows "vomma r mkt n pd opt h =
     res_bind (pruned_backward_price r opt n pd (mkt\<lparr>vol := vol mkt * (1 + h)\<rparr>)) (\<lambda>up.
     res_bind (pruned_backward_price r opt n pd (mkt\<lparr>vol := vol mkt * (1 - h)\<rparr>)) (\<lambda>down.
     res_bind (pruned_backward_price r opt n pd mkt) (\<lambda>mid.
     central_second r up mid down (vol mkt * h))))"
  using rel_bump_nonneg [OF assms(2,4)] assms(1,3)
  by (simp add: vomma_def Let_def bump_valid central_second_def
      three_prices [where f = "\<lambda>a b c. np_div r (np_add r (np_sub r a (np_mul r (Ok (Fin 2)) c)) b)
         (Ok (Fin D))" for D])

lemma theta_stencil:
  "theta r mkt n pd opt days =
     res_bind (pruned_backward_price r opt n pd mkt) (\<lambda>now.
     res_bind (pruned_backward_price r opt n (pd + days * us_per_day) mkt) (\<lambda>later.
     forward_first r now later (real_of_int days)))"
  by (simp add: theta_def Let_def forward_first_def
      two_prices [where f = "\<lambda>a b. np_div r (np_sub r b a) (Ok (Fin D))" for D])

lemma lambda_stencil:
  "lambda_elasticity r mkt n pd opt h =
     res_bind (pruned_backward_price r opt n pd mkt) (\<lambda>v.
     res_bind (delta r mkt n pd opt h) (\<lambda>d. elasticity r (s0 mkt) d v))"
  by (rule greeks_price_backward [of r mkt opt pd n])
     (simp_all add: lambda_elasticity_def elasticity_def num_def cong del: if_weak_cong)

lemmas args_defs = first_four_def arg_def kwargs_get_def as_market_def as_option_def
  as_date_def as_int_def as_real_def

lemma charm_stencil:
  "charm r [VMarket mkt, VInt n, VDate pd, VOption opt]
       [''days'' \<mapsto> VInt days, ''h'' \<mapsto> VFloat h] =
     res_bind (delta r mkt n pd opt h) (\<lambda>now.
     res_bind (delta r mkt n (pd + days * us_per_day) opt h) (\<lambda>later.
     forward_first r now later (real_of_int days)))"
  by (simp add: charm_def args_defs Let_def timedelta_days_int forward_first_def np_defs)

lemma speed_stencil:
  assumes "0 \<le> vol mkt" "dividend mkt = 0 \<longrightarrow> ex_div_date mkt = sentinel_date"
    and "max (1 / 1000) (s0 mkt * h) \<le> s0 mkt"
  shows "speed r [VMarket mkt, VInt n, VDate pd, VOption opt] [''h'' \<mapsto> VFloat h] =
     res_bind (gamma r (mkt\<lparr>s0 := s0 mkt + max (1 / 1000) (s0 mkt * h)\<rparr>) n pd opt h) (\<lambda>up.
     res_bind (gamma r (mkt\<lparr>s0 := s0 mkt - max (1 / 1000) (s0 mkt * h)\<rparr>) n pd opt h) (\<lambda>down.
     central_first r up down (max (1 / 1000) (s0 mkt * h))))"
proof -
  have "0 \<le> s0 mkt + max (1 / 1000) (s0 mkt * h)" "0 \<le> s0 mkt - max (1 / 1000) (s0 mkt * h)"
    using assms(3) by auto
  then show ?thesis using assms(1,2)
    by (simp add: speed_def args_defs Let_def bump_valid central_first_def np_defs)
qed

lemma zomma_stencil:
  assumes "0 \<le> s0 mkt" "dividend mkt = 0 \<longrightarrow> ex_div_date mkt = sentinel_date"
    and "max (1 / 10000) (vol mkt * h) \<le> vol mkt"
  shows "zomma r [VMarket mkt, VInt n, VDate pd, VOption opt] [''h'' \<mapsto> VFloat h] =
     res_bind (gamma r (mkt\<lparr>vol := vol mkt + max (1 / 10000) (vol mkt * h)\<rparr>) n pd opt h) (\<lambda>up.
     res_bind (gamma r (mkt\<lparr>vol := vol mkt - max (1 / 10000) (vol mkt * h)\<rparr>) n pd opt h) (\<lambda>down.
     central_first r up down (max (1 / 10000) (vol mkt * h))))"
proof -
  have "0 \<le> vol mkt + max (1 / 10000) (vol mkt * h)" "0 \<le> vol mkt - max (1 / 10000) (vol mkt * h)"
    using assms(3) by auto
  then show ?thesis using assms(1,2)
    by (simp add: zomma_def args_defs Let_def bump_valid central_first_def np_defs)
qed

lemma dividend_rho_stencil:
  assumes "0 \<le> s0 mkt" "0 \<le> vol mkt" "h \<le> dividend mkt"
  shows "dividend_rho r [VMarket mkt, VInt n, VDate pd, VOption opt] [''h'' \<mapsto> VFloat h] =
     res_bind (pruned_backward_price r opt n pd (set_dividend mkt (dividend mkt + h))) (\<lambda>up.
     res_bind (pruned_backward_price r opt n pd (set_dividend mkt (dividend mkt - h))) (\<lambda>down.
     central_first r up down h))"
  using assms
  by (simp add: dividend_rho_def args_defs Let_def bump_dividend central_first_def set_dividend_def
      max_def
      two_prices [where f = "\<lambda>a b. np_div r (np_sub r a b) (Ok (Fin D))" for D])

text \<open>
  Claim C9, as the code has it. For a market that \<open>Market\<close> accepts and relative
  steps of at most one, every estimator prices its perturbed instances by
  \<open>backward_pricing\<close> under pruning with the floor \<open>1e-7\<close>, in the order written, and
  combines the prices as follows. Delta, Vega and Rho are the central first difference
  in the spot, the volatility and the rate; Gamma and Vomma the central second
  difference in the spot and the volatility; Vanna the 4-point stencil over spot and
  volatility. Theta is the one-sided difference of the prices at the valuation date and
  \<open>days\<close> later, and Charm the one-sided difference of Delta at these two dates.
  Lambda is \<open>S0 * Delta / V\<close>, and \<open>0\<close> when \<open>V = 0\<close>. Speed and Zomma are the
  central first difference of Gamma in the spot and the volatility, with the steps
  \<open>max(1e-3, S0 * h)\<close> and \<open>max(1e-4, sigma * h)\<close>, when the step does not exceed the
  spot or the volatility. Dividend-Rho is the central first difference in the dividend
  amount when the step does not exceed the amount.
\<close>

theorem greeks_combine_backward_prices:
  assumes "0 \<le> s0 mkt" "0 \<le> vol mkt" "dividend mkt = 0 \<longrightarrow> ex_div_date mkt = sentinel_date"
    and "\<bar>h\<bar> \<le> 1" "\<bar>h_s\<bar> \<le> 1" "\<bar>h_sigma\<bar> \<le> 1"
  shows
    "delta r mkt n pd opt h =
       res_bind (pruned_backward_price r opt n pd (mkt\<lparr>s0 := s0 mkt * (1 + h)\<rparr>)) (\<lambda>up.
       res_bind (pruned_backward_price r opt n pd (mkt\<lparr>s0 := s0 mkt * (1 - h)\<rparr>)) (\<lambda>down.
       central_first r up down (s0 mkt * h)))
     \<and> gamma r mkt n pd opt h =
       res_bind (pruned_backward_price r opt n pd (mkt\<lparr>s0 := s0 mkt * (1 + h)\<rparr>)) (\<lambda>up.
       res_bind (pruned_backward_price r opt n pd mkt) (\<lambda>mid.
       res_bind (pruned_backward_price r opt n pd (mkt\<lparr>s0 := s0 mkt * (1 - h)\<rparr>)) (\<lambda>down.
       central_second r up mid down (s0 mkt * h))))
     \<and> vega r mkt n pd opt h =
       res_bind (pruned_backward_price r opt n pd (mkt\<lparr>vol := vol mkt * (1 + h)\<rparr>)) (\<lambda>up.
       res_bind (pruned_backward_price r opt n pd (mkt\<lparr>vol := vol mkt * (1 - h)\<rparr>)) (\<lambda>down.
       central_first r up down (vol mkt * h)))
     \<and> rho r mkt n pd opt h =
       res_bind (pruned_backward_price r opt n pd (mkt\<lparr>rate := rate mkt + h\<rparr>)) (\<lambda>up.
       res_bind (pruned_backward_price r opt n pd (mkt\<lparr>rate := rate mkt - h\<rparr>)) (\<lambda>down.
       central_first r up down h))
     \<and> vanna r mkt n pd opt h_s h_sigma =
       res_bind (pruned_backward_price r opt n pd
                  (mkt\<lparr>s0 := s0 mkt * (1 + h_s), vol := vol mkt * (1 + h_sigma)\<rparr>)) (\<lambda>p_pp.
       res_bind (pruned_backward_price r opt n pd
                  (mkt\<lparr>s0 := s0 mkt * (1 + h_s), vol := vol mkt * (1 - h_sigma)\<rparr>)) (\<lambda>p_pm.
       res_bind (pruned_backward_price r opt n pd
                  (mkt\<lparr>s0 := s0 mkt * (1 - h_s), vol := vol mkt * (1 + h_sigma)\<rparr>)) (\<lambda>p_mp.
       res_bind (pruned_backward_price r opt n pd
                  (mkt\<lparr>s0 := s0 mkt * (1 - h_s), vol := vol mkt * (1 - h_sigma)\<rparr>)) (\<lambda>p_mm.
       cross_stencil r p_pp p_pm p_mp p_mm (s0 mkt * h_s) (vol mkt * h_sigma)))))
     \<and> vomma r mkt n pd opt h =
       res_bind (pruned_backward_price r opt n pd (mkt\<lparr>vol := vol mkt * (1 + h)\<rparr>)) (\<lambda>up.
       res_bind (pruned_backward_price r opt n pd (mkt\<lparr>vol := vol mkt * (1 - h)\<rparr>)) (\<lambda>down.
       res_bind (pruned_backward_price r opt n pd mkt) (\<lambda>mid.
       central_second r up mid down (vol mkt * h))))
     \<and> theta r mkt n pd opt days =
       res_bind (pruned_backward_price r opt n pd mkt) (\<lambda>now.
       res_bind (pruned_backward_price r opt n (pd + days * us_per_day) mkt) (\<lambda>later.
       forward_first r now later (real_of_int days)))
     \<and> charm r [VMarket mkt, VInt n, VDate pd, VOption opt]
           [''days'' \<mapsto> VInt days, ''h'' \<mapsto> VFloat h] =
       res_bind (delta r mkt n pd opt h) (\<lambda>now.
       res_bind (delta r mkt n (pd + days * us_per_day) opt h) (\<lambda>later.
       forward_first r now later (real_of_int days)))
     \<and> lambda_elasticity r mkt n pd opt h =
       res_bind (pruned_backward_price r opt n pd mkt) (\<lambda>v.
       res_bind (delta r mkt n pd opt h) (\<lambda>d. elasticity r (s0 mkt) d v))
     \<and> (max (1 / 1000) (s0 mkt * h) \<le> s0 mkt \<longrightarrow>
        speed r [VMarket mkt, VInt n, VDate pd, VOption opt] [''h'' \<mapsto> VFloat h] =
          res_bind (gamma r (mkt\<lparr>s0 := s0 mkt + max (1 / 1000) (s0 mkt * h)\<rparr>) n pd opt h) (\<lambda>up.
          res_bind (gamma r (mkt\<lparr>s0 := s0 mkt - max (1 / 1000) (s0 mkt * h)\<rparr>) n pd opt h)
            (\<lambda>down. central_first r up down (max (1 / 1000) (s0 mkt * h)))))
     \<and> (max (1 / 10000) (vol mkt * h) \<le> vol mkt \<longrightarrow>
        zomma r [VMarket mkt, VInt n, VDate pd, VOption opt] [''h'' \<mapsto> VFloat h] =
          res_bind (gamma r (mkt\<lparr>vol := vol mkt + max (1 / 10000) (vol mkt * h)\<rparr>) n pd opt h)
            (\<lambda>up.
          res_bind (gamma r (mkt\<lparr>vol := vol mkt - max (1 / 10000) (vol mkt * h)\<rparr>) n pd opt h)
            (\<lambda>down. central_first r up down (max (1 / 10000) (vol mkt * h)))))
     \<and> (h \<le> dividend mkt \<longrightarrow>
        dividend_rho r [VMarket mkt, VInt n, VDate pd, VOption opt] [''h'' \<mapsto> VFloat h] =
          res_bind (pruned_backward_price r opt n pd (set_dividend mkt (dividend mkt + h))) (\<lambda>up.
          res_bind (pruned_backward_price r opt n pd (set_dividend mkt (dividend mkt - h)))
            (\<lambda>down. central_first r up down h)))"
  using delta_stencil [OF assms(1-4)] gamma_stencil [OF assms(1-4)] vega_stencil [OF assms(1-4)]
    rho_stencil [OF assms(1-3)] vanna_stencil [OF assms(1-3) assms(5,6)]
    vomma_stencil [OF assms(1-4)] theta_stencil charm_stencil lambda_stencil
    speed_stencil [OF assms(2,3)] zomma_stencil [OF assms(1,3)] dividend_rho_stencil [OF assms(1,2)]
  by (intro conjI impI) blast+

theorem greeks_combine_backward_prices_witness:
  "delta rt_default (mkt_div (day 100)) 1 (day 0) call_ex (1 / 100) =
       res_bind (pruned_backward_price rt_default call_ex 1 (day 0) ((mkt_div (day 100))\<lparr>s0 := 101\<rparr>)) (\<lambda>up.
       res_bind (pruned_backward_price rt_default call_ex 1 (day 0) ((mkt_div (day 100))\<lparr>s0 := 99\<rparr>)) (\<lambda>down. central_first rt_default up down 1))
   \<and> gamma rt_default (mkt_div (day 100)) 1 (day 0) call_ex (1 / 100) =
       res_bind (pruned_backward_price rt_default call_ex 1 (day 0) ((mkt_div (day 100))\<lparr>s0 := 101\<rparr>)) (\<lambda>up.
       res_bind (pruned_backward_price rt_default call_ex 1 (day 0) (mkt_div (day 100))) (\<lambda>mid.
       res_bind (pruned_backward_price rt_default call_ex 1 (day 0) ((mkt_div (day 100))\<lparr>s0 := 99\<rparr>)) (\<lambda>down. central_second rt_default up mid down 1)))
   \<and> vega rt_default (mkt_div (day 100)) 1 (day 0) call_ex (1 / 100) =
       res_bind (pruned_backward_price rt_default call_ex 1 (day 0) ((mkt_div (day 100))\<lparr>vol := 101 / 500\<rparr>)) (\<lambda>up.
       res_bind (pruned_backward_price rt_default call_ex 1 (day 0) ((mkt_div (day 100))\<lparr>vol := 99 / 500\<rparr>)) (\<lambda>down.
       central_first rt_default up down (1 / 500)))
   \<and> rho rt_default (mkt_div (day 100)) 1 (day 0) call_ex (1 / 100) =
       res_bind (pruned_backward_price rt_default call_ex 1 (day 0) ((mkt_div (day 100))\<lparr>rate := 3 / 50\<rparr>)) (\<lambda>up.
       res_bind (pruned_backward_price rt_default call_ex 1 (day 0) ((mkt_div (day 100))\<lparr>rate := 1 / 25\<rparr>)) (\<lambda>down.
       central_first rt_default up down (1 / 100)))
   \<and> vanna rt_default (mkt_div (day 100)) 1 (day 0) call_ex (1 / 100) (1 / 100) =
       res_bind (pruned_backward_price rt_default call_ex 1 (day 0) ((mkt_div (day 100))\<lparr>s0 := 101, vol := 101 / 500\<rparr>)) (\<lambda>p_pp.
       res_bind (pruned_backward_price rt_default call_ex 1 (day 0) ((mkt_div (day 100))\<lparr>s0 := 101, vol := 99 / 500\<rparr>)) (\<lambda>p_pm.
       res_bind (pruned_backward_price rt_default call_ex 1 (day 0) ((mkt_div (day 100))\<lparr>s0 := 99, vol := 101 / 500\<rparr>)) (\<lambda>p_mp.
       res_bind (pruned_backward_price rt_default call_ex 1 (day 0) ((mkt_div (day 100))\<lparr>s0 := 99, vol := 99 / 500\<rparr>)) (\<lambda>p_mm.
       cross_stencil rt_default p_pp p_pm p_mp p_mm 1 (1 / 500)))))
   \<and> vomma rt_default (mkt_div (day 100)) 1 (day 0) call_ex (1 / 100) =
       res_bind (pruned_backward_price rt_default call_ex 1 (day 0) ((mkt_div (day 100))\<lparr>vol := 101 / 500\<rparr>)) (\<lambda>up.
       res_bind (pruned_backward_price rt_default call_ex 1 (day 0) ((mkt_div (day 100))\<lparr>vol := 99 / 500\<rparr>)) (\<lambda>down.
       res_bind (pruned_backward_price rt_default call_ex 1 (day 0) (mkt_div (day 100))) (\<lambda>mid. central_second rt_default up mid down (1 / 500))))
   \<and> theta rt_default (mkt_div (day 100)) 1 (day 0) call_ex 1 =
       res_bind (pruned_backward_price rt_default call_ex 1 (day 0) (mkt_div (day 100))) (\<lambda>now.
       res_bind (pruned_backward_price rt_default call_ex 1 (day 1) (mkt_div (day 100))) (\<lambda>later.
       forward_first rt_default now later 1))
   \<and> charm rt_default [VMarket (mkt_div (day 100)), VInt 1, VDate (day 0), VOption call_ex]
         [''days'' \<mapsto> VInt 1, ''h'' \<mapsto> VFloat (1 / 100)] =
       res_bind (delta rt_default (mkt_div (day 100)) 1 (day 0) call_ex (1 / 100)) (\<lambda>now.
       res_bind (delta rt_default (mkt_div (day 100)) 1 (day 1) call_ex (1 / 100)) (\<lambda>later.
       forward_first rt_default now later 1))
   \<and> lambda_elasticity rt_default (mkt_div (day 100)) 1 (day 0) call_ex (1 / 100) =
       res_bind (pruned_backward_price rt_default call_ex 1 (day 0) (mkt_div (day 100))) (\<lambda>v.
       res_bind (delta rt_default (mkt_div (day 100)) 1 (day 0) call_ex (1 / 100)) (\<lambda>d.
       elasticity rt_default 100 d v))
   \<and> speed rt_default [VMarket (mkt_div (day 100)), VInt 1, VDate (day 0), VOption call_ex]
         [''h'' \<mapsto> VFloat (1 / 100)] =
       res_bind (gamma rt_default ((mkt_div (day 100))\<lparr>s0 := 101\<rparr>) 1 (day 0) call_ex (1 / 100)) (\<lambda>up.
       res_bind (gamma rt_default ((mkt_div (day 100))\<lparr>s0 := 99\<rparr>) 1 (day 0) call_ex (1 / 100)) (\<lambda>down.
       central_first rt_default up down 1))
   \<and> zomma rt_default [VMarket (mkt_div (day 100)), VInt 1, VDate (day 0), VOption call_ex]
         [''h'' \<mapsto> VFloat (1 / 100)] =
       res_bind (gamma rt_default ((mkt_div (day 100))\<lparr>vol := 101 / 500\<rparr>) 1 (day 0) call_ex (1 / 100)) (\<lambda>up.
       res_bind (gamma rt_default ((mkt_div (day 100))\<lparr>vol := 99 / 500\<rparr>) 1 (day 0) call_ex (1 / 100))
         (\<lambda>down. central_first rt_default up down (1 / 500)))
   \<and> dividend_rho rt_default [VMarket (mkt_div (day 100)), VInt 1, VDate (day 0), VOption call_ex]
         [''h'' \<mapsto> VFloat (1 / 100)] =
       res_bind (pruned_backward_price rt_default call_ex 1 (day 0) (set_dividend (mkt_div (day 100)) (301 / 100))) (\<lambda>up.
       res_bind (pruned_backward_price rt_default call_ex 1 (day 0) (set_dividend (mkt_div (day 100)) (299 / 100))) (\<lambda>down.
       central_first rt_default up down (1 / 100)))"
  using greeks_combine_backward_prices [where mkt = "mkt_div (day 100)" and h = "1 / 100"
      and h_s = "1 / 100" and h_sigma = "1 / 100" and r = rt_default and n = 1 and pd = "day 0"
      and opt = call_ex and days = 1]
  by (simp add: mkt_div_def day_def us_per_day_def)

text \<open>
  The prices of a put on a worthless underlying, over one step: the three successors
  of the root are worth the strike, so the price is the discounted strike.
\<close>

lemma Tree_zero:
  "Tree rt_default (params_greeks (day 0)) mkt_zero put_ex =
     Ok (new_tree (params_greeks (day 0)) mkt_zero put_ex 1
           (Fin (exp (- (1 / 20)))) (Fin (al_of (1 / 5) 1)))"
  "Tree rt_default (params_greeks (day 1)) mkt_zero put_ex =
     Ok (new_tree (params_greeks (day 1)) mkt_zero put_ex (364 / 365)
           (Fin (exp (- (91 / 1825)))) (Fin (al_of (1 / 5) (364 / 365))))"
  "Tree rt_default (params_greeks (day 2)) mkt_zero put_ex =
     Ok (new_tree (params_greeks (day 2)) mkt_zero put_ex (363 / 365)
           (Fin (exp (- (363 / 7300)))) (Fin (al_of (1 / 5) (363 / 365))))"
  by (simp_all add: Tree_def new_tree_def params_greeks_def mkt_zero_def put_ex_def
      rt_default_def np_defs date_defs al_of_def)

lemma idp_zero:
  "in_dividend_period sentinel_date 86400000000 (364 / 365) 1 = False"
  "in_dividend_period sentinel_date 172800000000 (363 / 365) 1 = False"
  by (simp_all add: in_dividend_period_def date_defs round_half_even_def Let_def)

lemma td_zero: "timedelta_days 364 = 31449600000000" "timedelta_days 363 = 31363200000000"
  by (simp_all add: date_defs round_half_even_def Let_def)

lemma three_probs: "k * pu_simple s d a + k * pm_simple s d a + k * pd_simple s d a = k"
  by (simp add: pm_simple_def algebra_simps)

lemma run_zero:
  "fst (backward_pricing rt_default
     (new_tree (params_greeks (day 0)) mkt_zero put_ex 1
           (Fin (exp (- (1 / 20)))) (Fin (al_of (1 / 5) 1))))
   = Ok (Some (Fin (100 * exp (- (1 / 20)))))"
  "fst (backward_pricing rt_default
     (new_tree (params_greeks (day 1)) mkt_zero put_ex (364 / 365)
           (Fin (exp (- (91 / 1825)))) (Fin (al_of (1 / 5) (364 / 365)))))
   = Ok (Some (Fin (100 * exp (- (91 / 1825)))))"
  "fst (backward_pricing rt_default
     (new_tree (params_greeks (day 2)) mkt_zero put_ex (363 / 365)
           (Fin (exp (- (363 / 7300)))) (Fin (al_of (1 / 5) (363 / 365)))))
   = Ok (Some (Fin (100 * exp (- (363 / 7300)))))"
  by (simp_all add: params_greeks_def mkt_zero_def put_ex_def run_defs2 idp_sentinel idp_zero
      td_zero three_probs cong: seq_weak_cong res_bind_weak_cong)

lemma zero_spot_prices:
  "pruned_backward_price rt_default put_ex 1 (day 0) mkt_zero = Ok (Fin (100 * exp (- (1 / 20))))"
  "pruned_backward_price rt_default put_ex 1 (day 1) mkt_zero = Ok (Fin (100 * exp (- (91 / 1825))))"
  "pruned_backward_price rt_default put_ex 1 (day 2) mkt_zero = Ok (Fin (100 * exp (- (363 / 7300))))"
  unfolding pruned_backward_price_def params_greeks_def [symmetric]
  by (simp_all add: Tree_zero run_zero num_def)

lemma convex_gap:
  "100 * exp (- (363 / 7300)) - 100 * exp (- (91 / 1825))
   \<noteq> (100 * exp (- (363 / 7300)) - 100 * exp (- (1 / 20 :: real))) / 2"
proof -
  define q where "q = exp (1 / 7300 :: real)"
  define a where "a = exp (- (1 / 20) :: real)"
  have q1: "1 < q" and a0: "0 < a" by (simp_all add: q_def a_def)
  have e1: "exp (- (91 / 1825)) = a * q" unfolding q_def a_def by (simp add: exp_add [symmetric])
  have e2: "exp (- (363 / 7300)) = a * q * q" unfolding q_def a_def
    by (simp add: exp_add [symmetric])
  have "a * (q - 1)\<^sup>2 \<noteq> 0" using q1 a0 by simp
  then have "a * q * q - 2 * (a * q) + a \<noteq> 0" by (simp add: power2_eq_square algebra_simps)
  then show ?thesis unfolding e1 e2 a_def [symmetric] by (simp add: algebra_simps)
qed

text \<open>
  The claim as the specification states it fails for Theta. For the put on the
  worthless underlying, valued on day 1 with \<open>days = 1\<close>, Theta is the difference of
  the prices of day 2 and day 1, which is not the central difference of the prices of
  day 2 and day 0.
\<close>

theorem theta_is_one_sided:
  "pruned_backward_price rt_default put_ex 1 (day 2) mkt_zero = Ok (Fin (100 * exp (- (363 / 7300))))
   \<and> pruned_backward_price rt_default put_ex 1 (day 0) mkt_zero = Ok (Fin (100 * exp (- (1 / 20))))
   \<and> theta rt_default mkt_zero 1 (day 1) put_ex 1
       = Ok (Fin (100 * exp (- (363 / 7300)) - 100 * exp (- (91 / 1825))))
   \<and> central_first rt_default (Fin (100 * exp (- (363 / 7300)))) (Fin (100 * exp (- (1 / 20)))) 1
       = Ok (Fin ((100 * exp (- (363 / 7300)) - 100 * exp (- (1 / 20))) / 2))
   \<and> theta rt_default mkt_zero 1 (day 1) put_ex 1
       \<noteq> central_first rt_default (Fin (100 * exp (- (363 / 7300)))) (Fin (100 * exp (- (1 / 20)))) 1"
proof -
  have d: "day 1 + 1 * us_per_day = day 2" by (simp add: day_def)
  have t: "theta rt_default mkt_zero 1 (day 1) put_ex 1
       = Ok (Fin (100 * exp (- (363 / 7300)) - 100 * exp (- (91 / 1825))))"
    unfolding theta_stencil d
    by (simp add: zero_spot_prices) (simp add: forward_first_def np_defs rt_default_def)
  have c: "central_first rt_default (Fin (100 * exp (- (363 / 7300)))) (Fin (100 * exp (- (1 / 20)))) 1
       = Ok (Fin ((100 * exp (- (363 / 7300)) - 100 * exp (- (1 / 20))) / 2))"
    by (simp add: central_first_def np_defs rt_default_def)
  show ?thesis unfolding t c using convex_gap by (simp add: zero_spot_prices)
qed

end
